theory Spec2Isabelle
  imports Complex_Main "HOL-Library.AList"
begin

section \<open>Python values\<close>

text \<open>
  The builder passes untyped Python values around (keyword arguments, the
  \<^verbatim>\<open>properties\<close> dictionary, the Kubernetes manifest). They are modelled by a
  datatype of JSON-like values. A dictionary is an association list in insertion
  order, as Python dictionaries are; \<^verbatim>\<open>d[k] = v\<close> is \<open>AList.update k v d\<close> (an
  existing key keeps its place, a new key goes last) and \<^verbatim>\<open>d.get(k)\<close> is
  \<open>dict_get d k\<close>.
\<close>

datatype pyval =
    PNone
  | PBool bool
  | PInt int
  | PFloat rat
  | PStr string
  | PList "pyval list"
  | PDict "(string \<times> pyval) list"

type_synonym pydict = "(string \<times> pyval) list"

text \<open>Python truthiness, which decides \<^verbatim>\<open>if x:\<close> and \<^verbatim>\<open>x or y\<close>.\<close>

fun truthy :: "pyval \<Rightarrow> bool" where
  "truthy PNone = False"
| "truthy (PBool b) = b"
| "truthy (PInt i) = (i \<noteq> 0)"
| "truthy (PFloat r) = (r \<noteq> 0)"
| "truthy (PStr s) = (s \<noteq> [])"
| "truthy (PList xs) = (xs \<noteq> [])"
| "truthy (PDict d) = (d \<noteq> [])"

definition py_or :: "pyval \<Rightarrow> pyval \<Rightarrow> pyval" where
  "py_or x y = (if truthy x then x else y)"

definition dict_get :: "pydict \<Rightarrow> string \<Rightarrow> pyval" where
  "dict_get d k = (case map_of d k of None \<Rightarrow> PNone | Some v \<Rightarrow> v)"

definition dict_get_default :: "pydict \<Rightarrow> string \<Rightarrow> pyval \<Rightarrow> pyval" where
  "dict_get_default d k dflt = (case map_of d k of None \<Rightarrow> dflt | Some v \<Rightarrow> v)"

text \<open>Decimal rendering of an integer, as an f-string does.\<close>

definition digit_char :: "nat \<Rightarrow> char" where
  "digit_char n = ''0123456789'' ! (n mod 10)"

function show_nat :: "nat \<Rightarrow> string" where
  "show_nat n = (if n < 10 then [digit_char n] else show_nat (n div 10) @ [digit_char n])"
  by pat_completeness auto
termination
  by (relation "measure id") auto

declare show_nat.simps [simp del]

definition show_int :: "int \<Rightarrow> string" where
  "show_int i = (if i < 0 then CHR ''-'' # show_nat (nat (- i)) else show_nat (nat i))"

section \<open>Orchestrators and errors\<close>

text \<open>
  \<^verbatim>\<open>Orchestrator\<close> and \<^verbatim>\<open>TrainingOrchestrator\<close> are two enumerations whose members
  are strings. Python compares members of a \<^verbatim>\<open>str\<close> enumeration as strings, so the
  two \<^verbatim>\<open>LOCAL_DOCKER_K8S\<close> members (and the two \<^verbatim>\<open>AWS_EKS\<close>) are equal under
  \<^verbatim>\<open>==\<close> and \<^verbatim>\<open>in [..]\<close>; \<open>orch_in\<close> is that test.
\<close>

datatype orchestrator =
    LOCAL_DOCKER
  | LOCAL_DOCKER_LAMBDA
  | LOCAL_DOCKER_K8S
  | MINIKUBE
  | AWS_SAGEMAKER
  | AWS_SAGEMAKER_ASYNC
  | AWS_LAMBDA
  | AWS_EKS
  | TRAINING_LOCAL_DOCKER_K8S
  | TRAINING_AWS_EKS

fun orch_value :: "orchestrator \<Rightarrow> string" where
  "orch_value LOCAL_DOCKER = ''LOCAL_DOCKER''"
| "orch_value LOCAL_DOCKER_LAMBDA = ''LOCAL_DOCKER_LAMBDA''"
| "orch_value LOCAL_DOCKER_K8S = ''LOCAL_DOCKER_K8S''"
| "orch_value MINIKUBE = ''MINIKUBE''"
| "orch_value AWS_SAGEMAKER = ''AWS_SAGEMAKER''"
| "orch_value AWS_SAGEMAKER_ASYNC = ''AWS_SAGEMAKER_ASYNC''"
| "orch_value AWS_LAMBDA = ''AWS_LAMBDA''"
| "orch_value AWS_EKS = ''AWS_EKS''"
| "orch_value TRAINING_LOCAL_DOCKER_K8S = ''LOCAL_DOCKER_K8S''"
| "orch_value TRAINING_AWS_EKS = ''AWS_EKS''"

definition orch_in :: "orchestrator \<Rightarrow> orchestrator list \<Rightarrow> bool" where
  "orch_in x xs = (orch_value x \<in> set (map orch_value xs))"

section \<open>The host and the world\<close>

text \<open>
  The contents of a file: text, or the dictionary that \<^verbatim>\<open>json.dump\<close> has written.
\<close>

datatype content = Text string | Json pydict

text \<open>
  Modelled from the spec: \<^verbatim>\<open>superai.utils.system\<close>, \<^verbatim>\<open>get_docker_client\<close>,
  \<^verbatim>\<open>aws_ecr_login\<close>, \<^verbatim>\<open>create_model_handler\<close> and \<^verbatim>\<open>create_model_entrypoint\<close> are
  imported from modules that are not among the sources. Following the spec's section
  on failures (an external failure surfaces immediately to the caller), each of them
  either succeeds or raises, as the host says. The host is everything the builder
  reads from outside itself and does not change during a call: the settings, the
  directories there are, whether the build tool is on the execution path, the cloud
  identity, the registry, and the hash function. \<open>sha256\<close> stands for
  \<^verbatim>\<open>hashlib.sha256(bytes).hexdigest()\<close>; the modelled file contents are typed, so it
  takes a \<open>content\<close>.
\<close>

record host =
  current_env :: string
  settings_path :: string
  home :: string
  is_dir :: "string \<Rightarrow> bool"
  sha256 :: "content \<Rightarrow> string"
  s2i_on_path :: bool
  system_ok :: "string \<Rightarrow> bool"
  docker_client_ok :: bool
  region_name :: string
  account_id :: string
  ecr_login_ok :: bool
  registry_has :: "string \<Rightarrow> bool"
  create_model_handler :: "string \<Rightarrow> bool \<Rightarrow> pyval option \<Rightarrow> string"
  create_model_entrypoint :: "pyval \<Rightarrow> string"

text \<open>
  Modelled from the spec: the environment file processor (\<^verbatim>\<open>self.environs\<close>) is an
  external collaborator exposing add/update and delete, whose module is not among the
  sources; its calls are recorded as events. So is every other operation on the
  outside world, in order, in the trace.
\<close>

datatype event =
    Chdir string
  | Makedirs string
  | PathExists string
  | FileRead string
  | FileWrite string
  | EnvAddOrUpdate string "pyval option"
  | EnvDelete string
  | DockerClient
  | ImageGet string
  | CloudIdentity
  | EcrLogin string string
  | ReloadConfig
  | ImagePull string
  | ImageTag string string
  | Which string
  | System string

record world =
  cwd :: string
  files :: "string \<Rightarrow> content option"
  images :: "string set"
  trace :: "event list"

text \<open>
  A computation takes the world and returns a result or an error, and the world it
  leaves behind; an error keeps the world as it was when the exception was raised.
\<close>

datatype error =
    ValueError string
  | NotImplementedError
  | TypeError
  | AttributeError
  | OSError string
  | JSONDecodeError string
  | ModuleNotFoundError
  | ImageNotFound string
  | DockerError
  | RegistryError string
  | SubprocessError string

type_synonym 'a io = "world \<Rightarrow> (error + 'a) \<times> world"

definition io_return :: "'a \<Rightarrow> 'a io" where
  "io_return x w = (Inr x, w)"

definition io_raise :: "error \<Rightarrow> 'a io" where
  "io_raise e w = (Inl e, w)"

definition io_bind :: "'a io \<Rightarrow> ('a \<Rightarrow> 'b io) \<Rightarrow> 'b io" where
  "io_bind m f w = (case m w of (Inl e, w') \<Rightarrow> (Inl e, w') | (Inr x, w') \<Rightarrow> f x w')"

definition io_then :: "'a io \<Rightarrow> 'b io \<Rightarrow> 'b io" where
  "io_then m n = io_bind m (\<lambda>_. n)"

definition io_lift :: "error + 'a \<Rightarrow> 'a io" where
  "io_lift r w = (r, w)"

definition io_when :: "bool \<Rightarrow> unit io \<Rightarrow> unit io" where
  "io_when c m = (if c then m else io_return ())"

text \<open>\<^verbatim>\<open>try: m except ImageNotFound: handler\<close>\<close>

definition except_image_not_found :: "'a io \<Rightarrow> 'a io \<Rightarrow> 'a io" where
  "except_image_not_found m handler w =
     (case m w of (Inl (ImageNotFound t), w') \<Rightarrow> handler w' | r \<Rightarrow> r)"

text \<open>\<^verbatim>\<open>try: m finally: fin\<close>: an error raised by \<open>fin\<close> replaces the outcome of \<open>m\<close>.\<close>

definition io_finally :: "'a io \<Rightarrow> unit io \<Rightarrow> 'a io" where
  "io_finally m fin w =
     (case m w of (r, w') \<Rightarrow>
        (case fin w' of (Inl e, w'') \<Rightarrow> (Inl e, w'') | (Inr _, w'') \<Rightarrow> (r, w'')))"

definition emit :: "event \<Rightarrow> unit io" where
  "emit e w = (Inr (), w\<lparr>trace := trace w @ [e]\<rparr>)"

subsection \<open>Paths and files\<close>

text \<open>
  \<^verbatim>\<open>os.path.join\<close> on two components. \<^verbatim>\<open>os.path.abspath\<close> is the join with the
  working directory; the normalisation of dots and doubled separators is left out, a
  file is found under the path as the program spells it.
\<close>

definition path_join :: "string \<Rightarrow> string \<Rightarrow> string" where
  "path_join a b =
     (if take 1 b = ''/'' then b
      else if a = [] \<or> last a = CHR ''/'' then a @ b
      else a @ ''/'' @ b)"

definition abspath :: "string \<Rightarrow> string io" where
  "abspath p w = (Inr (path_join (cwd w) p), w)"

text \<open>
  \<^verbatim>\<open>os.getcwd\<close> and \<^verbatim>\<open>os.chdir\<close> fail when the directory is not there. Creating the
  cache folder and opening a file for writing are taken to succeed; opening a file
  that is not there for reading fails. The working directory is kept as the path that
  was given to \<^verbatim>\<open>os.chdir\<close>: the model covers absolute, normalised locations, and does
  not resolve a relative location against the previous working directory as the
  operating system does.
\<close>

definition getcwd :: "host \<Rightarrow> string io" where
  "getcwd h w = (if is_dir h (cwd w) then (Inr (cwd w), w) else (Inl (OSError (cwd w)), w))"

definition chdir :: "host \<Rightarrow> string \<Rightarrow> unit io" where
  "chdir h p w =
     (if is_dir h p then (Inr (), w\<lparr>cwd := p, trace := trace w @ [Chdir p]\<rparr>)
      else (Inl (OSError p), w))"

definition makedirs :: "string \<Rightarrow> unit io" where
  "makedirs p = emit (Makedirs p)"

definition path_exists :: "string \<Rightarrow> bool io" where
  "path_exists p w = (Inr (files w p \<noteq> None), w\<lparr>trace := trace w @ [PathExists p]\<rparr>)"

definition read_file :: "string \<Rightarrow> content io" where
  "read_file p w =
     (case files w p of
        None \<Rightarrow> (Inl (OSError p), w)
      | Some c \<Rightarrow> (Inr c, w\<lparr>trace := trace w @ [FileRead p]\<rparr>))"

text \<open>\<^verbatim>\<open>json.load\<close>: a file written by \<^verbatim>\<open>json.dump\<close> reads back as the same dictionary.\<close>

definition read_json :: "string \<Rightarrow> pydict io" where
  "read_json p =
     io_bind (read_file p)
       (\<lambda>c. case c of Json d \<Rightarrow> io_return d | Text s \<Rightarrow> io_raise (JSONDecodeError p))"

definition write_file :: "string \<Rightarrow> content \<Rightarrow> unit io" where
  "write_file p c w = (Inr (), w\<lparr>files := (files w)(p \<mapsto> c), trace := trace w @ [FileWrite p]\<rparr>)"

subsection \<open>External collaborators\<close>

text \<open>
  Modelled from the spec: \<^verbatim>\<open>superai.utils.system\<close> runs a command line as a
  subprocess; a failure of the subprocess is raised to the caller.
\<close>

definition system :: "host \<Rightarrow> string \<Rightarrow> unit io" where
  "system h command =
     io_then (emit (System command))
       (if system_ok h command then io_return () else io_raise (SubprocessError command))"

text \<open>
  Modelled from the spec: \<^verbatim>\<open>get_docker_client\<close> connects to the container runtime.
\<close>

definition get_docker_client :: "host \<Rightarrow> unit io" where
  "get_docker_client h =
     (if docker_client_ok h then emit DockerClient else io_raise DockerError)"

text \<open>
  \<^verbatim>\<open>client.images.get(tag)\<close> raises \<^verbatim>\<open>ImageNotFound\<close> for an image that is not
  present locally; \<open>add_image\<close> is what a pull and a tag leave behind.
\<close>

definition images_get :: "string \<Rightarrow> unit io" where
  "images_get tag =
     io_then (emit (ImageGet tag))
       (\<lambda>w. if tag \<in> images w then (Inr (), w) else (Inl (ImageNotFound tag), w))"

definition add_image :: "string \<Rightarrow> unit io" where
  "add_image tag w = (Inr (), w\<lparr>images := insert tag (images w)\<rparr>)"

text \<open>
  Modelled from the spec: \<^verbatim>\<open>aws_ecr_login\<close> authenticates to the registry.
\<close>

definition aws_ecr_login :: "host \<Rightarrow> string \<Rightarrow> string \<Rightarrow> unit io" where
  "aws_ecr_login h region registry_name =
     (if ecr_login_ok h then emit (EcrLogin region registry_name)
      else io_raise (RegistryError registry_name))"

text \<open>\<^verbatim>\<open>client.images.pull(ref)\<close> and \<^verbatim>\<open>shutil.which("s2i")\<close>\<close>

definition images_pull :: "host \<Rightarrow> string \<Rightarrow> unit io" where
  "images_pull h ref =
     (if registry_has h ref then io_then (emit (ImagePull ref)) (add_image ref)
      else io_raise (RegistryError ref))"

definition which_s2i :: "host \<Rightarrow> bool io" where
  "which_s2i h = io_then (emit (Which ''s2i'')) (io_return (s2i_on_path h))"

section \<open>Base image resolver\<close>

text \<open>
  \<^verbatim>\<open>_get_base_name\<close> is a static method. The only ambient value it reads is
  \<^verbatim>\<open>settings.current_env\<close>, passed here as the first argument.
\<close>

definition get_base_name ::
  "string \<Rightarrow> bool \<Rightarrow> bool \<Rightarrow> bool \<Rightarrow> bool \<Rightarrow> bool \<Rightarrow> int \<Rightarrow> bool \<Rightarrow> error + string" where
  "get_base_name env enable_eia lambda_mode enable_cuda cuda_devel k8s_mode ver use_internal =
    (if enable_eia \<and> (lambda_mode \<or> enable_cuda \<or> k8s_mode)
       then Inl (ValueError ''Cannot use EIA with other options'')
     else if enable_cuda \<and> lambda_mode
       then Inl (ValueError ''Cannot use CUDA with Lambda'')
     else
       let base_image = ''superai-model-s2i-python3711'';
           base_image = base_image @
             (if cuda_devel then ''-gpu-devel''
              else if enable_cuda then ''-gpu''
              else if enable_eia then ''-eia''
              else ''-cpu'');
           base_image = (if env = ''dev'' \<or> use_internal
                         then base_image @ ''-internal'' else base_image);
           base_image = (if lambda_mode then base_image @ ''-lambda''
                         else if k8s_mode then base_image @ ''-seldon''
                         else base_image)
       in Inr (base_image @ '':'' @ show_int ver))"

section \<open>The builder\<close>

datatype builder_class = AiImageBuilder | AiTrainerImageBuilder

record builder =
  builder_class :: builder_class
  orchestrator :: orchestrator
  entrypoint_class :: string
  location :: string
  name :: string
  version :: string
  environs_location :: string
  requirements :: pyval
  conda_env :: pyval
  artifacts :: "pydict option"

definition ALLOWED_ORCHESTRATOR :: "builder_class \<Rightarrow> orchestrator list" where
  "ALLOWED_ORCHESTRATOR c =
     (case c of
        AiImageBuilder \<Rightarrow>
          [LOCAL_DOCKER, LOCAL_DOCKER_LAMBDA, LOCAL_DOCKER_K8S, MINIKUBE,
           AWS_SAGEMAKER, AWS_SAGEMAKER_ASYNC, AWS_LAMBDA, AWS_EKS]
      | AiTrainerImageBuilder \<Rightarrow> [TRAINING_LOCAL_DOCKER_K8S, TRAINING_AWS_EKS])"

text \<open>
  Membership in an enumeration class is membership among its members. The message of
  the error lists the members as \<^verbatim>\<open>repr\<close> prints them, \<^verbatim>\<open><Orchestrator.AWS_EKS: 'AWS_EKS'>\<close>;
  every member's name is its value.
\<close>

fun orch_class :: "orchestrator \<Rightarrow> string" where
  "orch_class TRAINING_LOCAL_DOCKER_K8S = ''TrainingOrchestrator''"
| "orch_class TRAINING_AWS_EKS = ''TrainingOrchestrator''"
| "orch_class _ = ''Orchestrator''"

definition orch_repr :: "orchestrator \<Rightarrow> string" where
  "orch_repr x =
     ''<'' @ orch_class x @ ''.'' @ orch_value x @ '': '' @
     [CHR 0x27] @ orch_value x @ [CHR 0x27] @ ''>''"

fun join_str :: "string \<Rightarrow> string list \<Rightarrow> string" where
  "join_str sep [] = []"
| "join_str sep [x] = x"
| "join_str sep (x # y # ys) = x @ sep @ join_str sep (y # ys)"

definition list_repr :: "string list \<Rightarrow> string" where
  "list_repr xs = ''['' @ join_str '', '' xs @ '']''"

definition check_orchestrator :: "builder \<Rightarrow> error + unit" where
  "check_orchestrator b =
     (if orchestrator b \<notin> set (ALLOWED_ORCHESTRATOR (builder_class b))
      then Inl (ValueError (''Invalid Orchestrator, should be one of '' @
                  list_repr (map orch_repr (ALLOWED_ORCHESTRATOR (builder_class b)))))
      else Inr ())"

subsection \<open>Entrypoint preparation\<close>

definition prepare_entrypoint :: "host \<Rightarrow> builder \<Rightarrow> pyval \<Rightarrow> pyval \<Rightarrow> unit io" where
  "prepare_entrypoint h b lambda_ai_cache sagemaker_worker_count =
     (if orch_in (orchestrator b) [LOCAL_DOCKER, AWS_SAGEMAKER, AWS_SAGEMAKER_ASYNC] then
        io_then
          (write_file (path_join (location b) ''handler.py'')
             (Text (create_model_handler h (entrypoint_class b) False None)))
          (write_file (path_join (location b) ''dockerd-entrypoint.py'')
             (Text (create_model_entrypoint h sagemaker_worker_count)))
      else if orch_in (orchestrator b) [LOCAL_DOCKER_LAMBDA, AWS_LAMBDA] then
        write_file (path_join (location b) ''handler.py'')
          (Text (create_model_handler h (entrypoint_class b) True (Some lambda_ai_cache)))
      else if orch_in (orchestrator b) [AWS_EKS, LOCAL_DOCKER_K8S] then
        io_return ()
      else io_raise NotImplementedError)"

subsection \<open>Change detection\<close>

definition tracked_files :: "builder \<Rightarrow> string list" where
  "tracked_files b =
     (if truthy (requirements b) then [''requirements.txt''] else []) @
     (if truthy (conda_env b) then [''environment.yml''] else []) @
     (case artifacts b of
        None \<Rightarrow> []
      | Some a \<Rightarrow> if a \<noteq> [] \<and> map_of a ''run'' \<noteq> None then [''setup.sh''] else [])"

definition cache_folder :: "host \<Rightarrow> builder \<Rightarrow> string option \<Rightarrow> string" where
  "cache_folder h b cache_root =
     (let cache_root =
            (case cache_root of
               None \<Rightarrow> path_join (settings_path h) ''cache''
             | Some r \<Rightarrow> if r = [] then path_join (settings_path h) ''cache'' else r)
      in path_join (path_join cache_root (name b)) (version b))"

definition hash_file :: "host \<Rightarrow> builder \<Rightarrow> string option \<Rightarrow> string" where
  "hash_file h b cache_root = path_join (cache_folder h b cache_root) ''.hash.json''"

definition orchestrator_type_file :: "host \<Rightarrow> builder \<Rightarrow> string option \<Rightarrow> string" where
  "orchestrator_type_file h b cache_root =
     path_join (cache_folder h b cache_root) ''.orchestrator.txt''"

text \<open>
  The loop over the tracked files. \<^verbatim>\<open>new_hash\<close> and \<^verbatim>\<open>hash_content\<close> are the same
  dictionary object in the source, so the comparison reads the dictionary as updated
  so far; \<open>hashes\<close> is that one dictionary.
\<close>

fun hash_loop :: "host \<Rightarrow> string list \<Rightarrow> pydict \<Rightarrow> bool \<Rightarrow> (pydict \<times> bool) io" where
  "hash_loop h [] hashes changes_in_build = io_return (hashes, changes_in_build)"
| "hash_loop h (file # rest) hashes changes_in_build =
     io_bind (abspath file) (\<lambda>p.
     io_bind (read_file p) (\<lambda>c.
       let file_hash = PStr (sha256 h c);
           changes_in_build = (if file_hash \<noteq> dict_get hashes file then True else changes_in_build)
       in hash_loop h rest (AList.update file file_hash hashes) changes_in_build))"

definition track_changes :: "host \<Rightarrow> builder \<Rightarrow> string option \<Rightarrow> bool io" where
  "track_changes h b cache_root =
     (let hash_file = hash_file h b cache_root;
          orchestrator_type_file = orchestrator_type_file h b cache_root
      in
      io_then (makedirs (cache_folder h b cache_root)) (
      io_bind (path_exists hash_file) (\<lambda>ex.
      io_then (io_when (\<not> ex) (write_file hash_file (Json []))) (
      io_bind (read_json hash_file) (\<lambda>hash_content.
      io_bind (hash_loop h (tracked_files b) hash_content False) (\<lambda>(new_hash, changes_in_build).
      io_then (write_file hash_file (Json new_hash)) (
      io_bind (path_exists orchestrator_type_file) (\<lambda>ex.
      io_then (io_when (\<not> ex) (write_file orchestrator_type_file (Json []))) (
      io_bind (read_json orchestrator_type_file) (\<lambda>cached_op_type.
        let changes_in_build =
              (if PStr (orch_value (orchestrator b)) \<noteq> dict_get cached_op_type ''orchestrator''
               then True else changes_in_build)
        in
      io_then (write_file orchestrator_type_file
                 (Json [(''orchestrator'', PStr (orch_value (orchestrator b)))]))
        (io_return changes_in_build)))))))))))"

subsection \<open>Base image provisioning\<close>

definition get_docker_registry :: "host \<Rightarrow> string \<Rightarrow> string" where
  "get_docker_registry h region = account_id h @ ''.dkr.ecr.'' @ region @ ''.amazonaws.com''"

definition download_base_image :: "host \<Rightarrow> string \<Rightarrow> unit io" where
  "download_base_image h base_image =
     (let region = region_name h;
          registry_name = get_docker_registry h region;
          ecr_image_name = registry_name @ ''/'' @ base_image
      in
      io_then (emit CloudIdentity) (
      io_then (aws_ecr_login h region registry_name) (
      io_then (emit ReloadConfig) (
      io_then (images_pull h ecr_image_name) (
      io_then (system h (''docker pull '' @ ecr_image_name)) (
      io_then (images_get ecr_image_name) (
      io_then (emit (ImageTag ecr_image_name base_image))
              (add_image base_image))))))))"

subsection \<open>The layered build\<close>

definition full_image_name :: "string \<Rightarrow> string \<Rightarrow> string" where
  "full_image_name image_name version_tag = image_name @ '':'' @ version_tag"

definition pip_layer_name :: "string \<Rightarrow> string \<Rightarrow> string" where
  "pip_layer_name image_name version_tag = image_name @ ''-pip-layer:'' @ version_tag"

definition s2i_command :: "host \<Rightarrow> builder \<Rightarrow> string \<Rightarrow> string \<Rightarrow> string" where
  "s2i_command h b base_image_tag image_tag =
     ''s2i build -E '' @ environs_location b @ '' '' @
     ''-v '' @ path_join (home h) ''.aws'' @ '':/root/.aws '' @
     ''-v '' @ path_join (home h) ''.superai'' @ '':/root/.superai '' @
     ''-v '' @ path_join (home h) ''.canotic'' @ '':/root/.canotic '' @
     ''--incremental=True . '' @
     base_image_tag @ '' '' @ image_tag"

definition create_prediction_image_s2i ::
  "host \<Rightarrow> builder \<Rightarrow> string \<Rightarrow> string \<Rightarrow> bool \<Rightarrow> bool \<Rightarrow> unit io" where
  "create_prediction_image_s2i h b base_image_tag image_tag lambda_mode k8s_mode =
     io_then (emit (EnvAddOrUpdate ''SUPERAI_CONFIG_ROOT'' (Some (PStr ''/tmp/.superai'')))) (
     io_then
       (if lambda_mode then emit (EnvAddOrUpdate ''LAMBDA_MODE=true'' None)
        else if k8s_mode then
          io_then (emit (EnvAddOrUpdate ''SERVICE_TYPE=MODEL'' None)) (
          io_then (emit (EnvAddOrUpdate ''PERSISTENCE=0'' None)) (
          io_then (emit (EnvAddOrUpdate ''API_TYPE=REST'' None))
                  (emit (EnvAddOrUpdate ''SELDON_MODE=true'' None))))
        else io_return ())
       (system h (s2i_command h b base_image_tag image_tag)))"

text \<open>
  The body of \<^verbatim>\<open>build_image_s2i\<close>. The call of \<^verbatim>\<open>_get_base_name\<close> passes five
  arguments, so the schema version and \<^verbatim>\<open>use_internal\<close> take their defaults there.
\<close>

definition build_image_s2i_body ::
  "host \<Rightarrow> builder \<Rightarrow> string \<Rightarrow> string \<Rightarrow> bool \<Rightarrow> bool \<Rightarrow> bool \<Rightarrow> bool \<Rightarrow> bool \<Rightarrow> bool \<Rightarrow> string io" where
  "build_image_s2i_body h b image_name version_tag enable_cuda enable_eia cuda_devel
       from_scratch always_download use_internal =
     (let k8s_mode = orch_in (orchestrator b) [AWS_EKS, LOCAL_DOCKER_K8S];
          lambda_mode = orch_in (orchestrator b) [LOCAL_DOCKER_LAMBDA, AWS_LAMBDA]
      in
      io_then (chdir h (location b)) (
      io_bind (track_changes h b None) (\<lambda>changes_in_build.
      io_then (get_docker_client h) (
      io_bind (io_lift (get_base_name (current_env h) enable_eia lambda_mode enable_cuda
                          cuda_devel k8s_mode 1 False)) (\<lambda>base_image.
      io_then (io_when always_download (download_base_image h base_image)) (
        let from_scratch = (if always_download then True else from_scratch) in
      io_then (except_image_not_found (images_get base_image)
                 (download_base_image h base_image)) (
      io_bind (which_s2i h) (\<lambda>found.
      io_then (io_when (\<not> found) (io_raise ModuleNotFoundError)) (
      io_bind
        (if changes_in_build then io_return True
         else except_image_not_found
                (io_then (images_get (pip_layer_name image_name version_tag))
                         (io_return from_scratch))
                (io_return True)) (\<lambda>from_scratch.
      io_then
        (io_when from_scratch
           (io_then (emit (EnvDelete ''BUILD_PIP''))
              (create_prediction_image_s2i h b base_image
                 (pip_layer_name image_name version_tag) lambda_mode k8s_mode))) (
      io_then (emit (EnvAddOrUpdate ''BUILD_PIP=false'' None)) (
        let full_image_name = full_image_name image_name version_tag in
      io_then
        (create_prediction_image_s2i h b (pip_layer_name image_name version_tag)
           full_image_name lambda_mode k8s_mode)
        (io_return full_image_name)))))))))))))"

text \<open>The decorator \<^verbatim>\<open>reset_workdir\<close>.\<close>

definition reset_workdir :: "host \<Rightarrow> 'a io \<Rightarrow> 'a io" where
  "reset_workdir h function = io_bind (getcwd h) (\<lambda>cwd. io_finally function (chdir h cwd))"

definition build_image_s2i ::
  "host \<Rightarrow> builder \<Rightarrow> string \<Rightarrow> string \<Rightarrow> bool \<Rightarrow> bool \<Rightarrow> bool \<Rightarrow> bool \<Rightarrow> bool \<Rightarrow> bool \<Rightarrow> string io" where
  "build_image_s2i h b image_name version_tag enable_cuda enable_eia cuda_devel
       from_scratch always_download use_internal =
     reset_workdir h
       (build_image_s2i_body h b image_name version_tag enable_cuda enable_eia cuda_devel
          from_scratch always_download use_internal)"

subsection \<open>Deployment properties\<close>

text \<open>
  \<^verbatim>\<open>_prepare_k8s_parameters\<close> receives all its arguments by keyword; \<open>kw\<close> is the
  dictionary of the keywords passed, and a parameter that is not among them takes its
  default. The values of the new entries are all computed from the dictionary as it
  was, then written into it in order.
\<close>

definition k8s_entries :: "pydict \<Rightarrow> pydict \<Rightarrow> pydict" where
  "k8s_entries kw kubernetes_config =
     (let maxReplicas = dict_get_default kw ''maxReplicas'' (PInt 5);
          minReplicas = dict_get_default kw ''minReplicas'' (PInt 0);
          cooldownPeriod = dict_get_default kw ''cooldownPeriod'' (PInt 1800);
          targetAverageUtilization = dict_get_default kw ''targetAverageUtilization'' (PFloat (1 / 2));
          gpuTargetAverageUtilization = dict_get_default kw ''gpuTargetAverageUtilization'' (PInt 60);
          targetMemoryRequirement = dict_get_default kw ''targetMemoryRequirement'' (PStr ''512Mi'');
          targetMemoryLimit = dict_get_default kw ''targetMemoryLimit'' (PStr ''4Gi'');
          volumeMountName = dict_get_default kw ''volumeMountName'' (PStr ''efs-vpc'');
          mountPath = dict_get_default kw ''mountPath'' (PStr ''/shared'');
          worker_count = dict_get_default kw ''worker_count'' (PInt 1);
          enable_cuda = dict_get_default kw ''enable_cuda'' (PBool False)
      in
      [(''maxReplicaCount'', py_or (dict_get kubernetes_config ''maxReplicas'') maxReplicas),
       (''minReplicaCount'', py_or (dict_get kubernetes_config ''minReplicas'') minReplicas),
       (''cooldownPeriod'', py_or (dict_get kubernetes_config ''cooldownPeriod'') cooldownPeriod),
       (''targetAverageUtilization'',
          py_or (dict_get kubernetes_config ''targetAverageUtilization'') targetAverageUtilization),
       (''gpuTargetAverageUtilization'',
          py_or (dict_get kubernetes_config ''gpuTargetAverageUtilization'')
            gpuTargetAverageUtilization),
       (''targetMemoryRequirement'',
          py_or (dict_get kubernetes_config ''targetMemoryRequirement'') targetMemoryRequirement),
       (''targetMemoryLimit'', py_or (dict_get kubernetes_config ''targetMemoryLimit'') targetMemoryLimit),
       (''volumeMountName'', py_or (dict_get kubernetes_config ''volumeMountName'') volumeMountName),
       (''mountPath'', py_or (dict_get kubernetes_config ''mountPath'') mountPath),
       (''numThreads'', py_or (dict_get kubernetes_config ''worker_count'') worker_count),
       (''enableCuda'', enable_cuda)])"

definition dict_update :: "pydict \<Rightarrow> pydict \<Rightarrow> pydict" where
  "dict_update d entries = fold (\<lambda>(k, v). AList.update k v) entries d"

definition prepare_k8s_parameters :: "builder \<Rightarrow> pydict \<Rightarrow> pydict io" where
  "prepare_k8s_parameters b kw =
     (case py_or (dict_get_default kw ''properties'' PNone) (PDict []) of
        PDict properties \<Rightarrow>
          (case dict_get_default properties ''kubernetes_config'' (PDict []) of
             PDict kubernetes_config \<Rightarrow>
               (let kubernetes_config =
                      dict_update kubernetes_config (k8s_entries kw kubernetes_config)
                in io_then
                     (write_file (path_join (location b) (name b @ ''_config.json''))
                        (Json kubernetes_config))
                     (io_return kubernetes_config))
           | _ \<Rightarrow> io_raise AttributeError)
      | _ \<Rightarrow> io_raise AttributeError)"

definition get_deployment_properties :: "builder \<Rightarrow> pydict option \<Rightarrow> pydict \<Rightarrow> pydict io" where
  "get_deployment_properties b properties kwargs =
     (let properties = (case properties of None \<Rightarrow> [] | Some d \<Rightarrow> d) in
      io_bind
        (if orch_in (orchestrator b) [AWS_EKS, LOCAL_DOCKER_K8S] then
           io_bind (prepare_k8s_parameters b ((''properties'', PDict properties) # kwargs))
             (\<lambda>k8s_config.
                io_return (AList.update ''kubernetes_config'' (PDict k8s_config) properties))
         else io_return properties) (\<lambda>properties.
      io_return
        (if orch_in (orchestrator b) [LOCAL_DOCKER, LOCAL_DOCKER_LAMBDA, LOCAL_DOCKER_K8S] then
           AList.update ''k8s_mode''
             (if orch_in (orchestrator b) [LOCAL_DOCKER_K8S] then PBool True else PNone)
          (AList.update ''enable_cuda'' (dict_get kwargs ''enable_cuda'')
          (AList.update ''lambda_mode''
             (PBool (orch_in (orchestrator b) [LOCAL_DOCKER_LAMBDA, AWS_LAMBDA]))
          (AList.update ''image_name'' (dict_get kwargs ''image_name'') properties)))
         else properties)))"

subsection \<open>The build entry point\<close>

text \<open>
  \<^verbatim>\<open>prepare\<close> is overridden by the trainer's builder. It passes \<^verbatim>\<open>enable_cuda\<close> and
  \<^verbatim>\<open>properties\<close> by name next to \<^verbatim>\<open>**kwargs\<close>, which is a \<^verbatim>\<open>TypeError\<close> when
  \<^verbatim>\<open>kwargs\<close> holds one of them.
\<close>

definition prepare :: "host \<Rightarrow> builder \<Rightarrow> pydict \<Rightarrow> unit io" where
  "prepare h b kwargs =
     (case builder_class b of
        AiImageBuilder \<Rightarrow>
          prepare_entrypoint h b
            (dict_get_default kwargs ''lambda_ai_cache'' (PInt 32))
            (dict_get_default kwargs ''sagemaker_worker_count'' (PInt 1))
      | AiTrainerImageBuilder \<Rightarrow>
          (if map_of kwargs ''enable_cuda'' \<noteq> None \<or> map_of kwargs ''properties'' \<noteq> None
           then io_raise TypeError
           else io_then
                  (prepare_k8s_parameters b
                     ((''enable_cuda'', dict_get kwargs ''enable_cuda'') #
                      (''properties'', dict_get kwargs ''properties'') # kwargs))
                  (io_return ())))"

fun update_environs :: "pydict \<Rightarrow> unit io" where
  "update_environs [] = io_return ()"
| "update_environs ((key, val) # rest) =
     io_then (emit (EnvAddOrUpdate key (Some val))) (update_environs rest)"

definition build_image ::
  "host \<Rightarrow> builder \<Rightarrow> bool \<Rightarrow> bool \<Rightarrow> bool \<Rightarrow> bool \<Rightarrow> bool \<Rightarrow> bool \<Rightarrow> pydict option \<Rightarrow> bool
     \<Rightarrow> pydict \<Rightarrow> (string \<times> pydict) io" where
  "build_image h b cuda_devel enable_cuda enable_eia skip_build build_all_layers download_base
       properties use_internal kwargs =
     io_then
       (case dict_get_default kwargs ''envs'' (PDict []) of
          PDict envs \<Rightarrow> update_environs envs
        | _ \<Rightarrow> io_raise AttributeError) (
     io_then (prepare h b kwargs) (
     io_bind
       (if \<not> skip_build then
          build_image_s2i h b (name b) (version b) enable_cuda enable_eia cuda_devel
            build_all_layers download_base use_internal
        else io_return (full_image_name (name b) (version b))) (\<lambda>image_name.
     io_bind
       (if map_of kwargs ''image_name'' \<noteq> None then io_raise TypeError
        else get_deployment_properties b properties
               ((''image_name'', PStr image_name) # (''cuda_devel'', PBool cuda_devel) #
                (''enable_cuda'', PBool enable_cuda) # (''enable_eia'', PBool enable_eia) #
                kwargs)) (\<lambda>properties.
     io_return (image_name, properties)))))"

section \<open>Observations on runs\<close>

text \<open>
  The invocations of the external build tool among the recorded events: the calls of
  \<open>system\<close> whose command line starts with \<^verbatim>\<open>s2i build\<close>.
\<close>

fun is_s2i_build :: "event \<Rightarrow> bool" where
  "is_s2i_build (System command) = (take 10 command = ''s2i build '')"
| "is_s2i_build _ = False"

definition build_tool_calls :: "world \<Rightarrow> event list" where
  "build_tool_calls w = filter is_s2i_build (trace w)"

text \<open>
  The pulls from the registry among the recorded events: \<^verbatim>\<open>client.images.pull\<close> and
  the \<^verbatim>\<open>docker pull\<close> subprocess, which \<^verbatim>\<open>_download_base_image\<close> runs one after the other
  on the same reference.
\<close>

fun is_pull :: "event \<Rightarrow> bool" where
  "is_pull (ImagePull ref) = True"
| "is_pull (System command) = (take 12 command = ''docker pull '')"
| "is_pull _ = False"

definition registry_pulls :: "world \<Rightarrow> event list" where
  "registry_pulls w = filter is_pull (trace w)"

text \<open>
  Image lookups, registry operations, the search for the build tool and subprocess
  invocations.
\<close>

fun is_image_or_build :: "event \<Rightarrow> bool" where
  "is_image_or_build (ImageGet t) = True"
| "is_image_or_build CloudIdentity = True"
| "is_image_or_build (EcrLogin r n) = True"
| "is_image_or_build ReloadConfig = True"
| "is_image_or_build (ImagePull r) = True"
| "is_image_or_build (ImageTag r t) = True"
| "is_image_or_build (Which p) = True"
| "is_image_or_build (System c) = True"
| "is_image_or_build _ = False"

text \<open>
  The files that entrypoint preparation and the synthesis of deployment properties
  write into the build location, and the events a build with \<^verbatim>\<open>skip_build\<close> is left
  with: updates of the environment file and writes of those files.
\<close>

definition handler_file :: "builder \<Rightarrow> string" where
  "handler_file b = path_join (location b) ''handler.py''"

definition entrypoint_file :: "builder \<Rightarrow> string" where
  "entrypoint_file b = path_join (location b) ''dockerd-entrypoint.py''"

definition config_file :: "builder \<Rightarrow> string" where
  "config_file b = path_join (location b) (name b @ ''_config.json'')"

fun is_preparation :: "builder \<Rightarrow> event \<Rightarrow> bool" where
  "is_preparation b (EnvAddOrUpdate k v) = True"
| "is_preparation b (FileWrite p) =
     (p = handler_file b \<or> p = entrypoint_file b \<or> p = config_file b)"
| "is_preparation b _ = False"

text \<open>
  What separates two worlds when nothing but preparation has happened in between: the
  same working directory and images, the same files apart from the three above, and
  no recorded event other than those of preparation.
\<close>

definition only_prepared :: "builder \<Rightarrow> world \<Rightarrow> world \<Rightarrow> bool" where
  "only_prepared b w w' \<longleftrightarrow>
     cwd w' = cwd w \<and> images w' = images w \<and>
     (\<forall>p. p \<noteq> handler_file b \<and> p \<noteq> entrypoint_file b \<and> p \<noteq> config_file b
          \<longrightarrow> files w' p = files w p) \<and>
     filter (\<lambda>e. \<not> is_preparation b e) (trace w') = filter (\<lambda>e. \<not> is_preparation b e) (trace w)"

text \<open>A computation is silent for a kind of event when it never records one.\<close>

definition silent :: "(event \<Rightarrow> bool) \<Rightarrow> 'a io \<Rightarrow> bool" where
  "silent P m = (\<forall>w. filter P (trace (snd (m w))) = filter P (trace w))"

text \<open>No modelled operation removes an image.\<close>

definition keeps_images :: "'a io \<Rightarrow> bool" where
  "keeps_images m = (\<forall>w. images w \<subseteq> images (snd (m w)))"

text \<open>
  The persisted cache record of a model name and version, read off the files: the
  hash recorded for a file name, and the recorded orchestrator. The current hash of a
  tracked file is taken of the file under the working directory.
\<close>

definition recorded_hashes :: "host \<Rightarrow> builder \<Rightarrow> string option \<Rightarrow> world \<Rightarrow> pydict" where
  "recorded_hashes h b cache_root w =
     (case files w (hash_file h b cache_root) of Some (Json d) \<Rightarrow> d | _ \<Rightarrow> [])"

definition recorded_orchestrator :: "host \<Rightarrow> builder \<Rightarrow> string option \<Rightarrow> world \<Rightarrow> pyval option" where
  "recorded_orchestrator h b cache_root w =
     (case files w (orchestrator_type_file h b cache_root) of
        Some (Json d) \<Rightarrow> map_of d ''orchestrator'' | _ \<Rightarrow> None)"

definition current_hash :: "host \<Rightarrow> world \<Rightarrow> string \<Rightarrow> pyval option" where
  "current_hash h w file =
     (case files w (path_join (cwd w) file) of
        None \<Rightarrow> None | Some c \<Rightarrow> Some (PStr (sha256 h c)))"

section \<open>A concrete host, builder and world\<close>

text \<open>
  A small installation on which the definitions can be run: every collaborator
  answers, the model \<^verbatim>\<open>m\<close> version \<^verbatim>\<open>1\<close> lives in \<^verbatim>\<open>/m\<close> and declares
  requirements, and the hash of a text file is its text.
\<close>

definition demo_host :: host where
  "demo_host =
     \<lparr> current_env = ''prod'', settings_path = ''/s'', home = ''/root'',
       is_dir = (\<lambda>p. True),
       sha256 = (\<lambda>c. case c of Text s \<Rightarrow> s | Json d \<Rightarrow> ''json''),
       s2i_on_path = True, system_ok = (\<lambda>c. True), docker_client_ok = True,
       region_name = ''eu'', account_id = ''1'', ecr_login_ok = True,
       registry_has = (\<lambda>r. True),
       create_model_handler = (\<lambda>c l a. c), create_model_entrypoint = (\<lambda>n. ''serve'') \<rparr>"

definition demo_builder :: builder where
  "demo_builder =
     \<lparr> builder_class = AiImageBuilder, orchestrator = LOCAL_DOCKER, entrypoint_class = ''M'',
       location = ''/m'', name = ''m'', version = ''1'', environs_location = ''/m/env'',
       requirements = PStr ''numpy'', conda_env = PNone, artifacts = None \<rparr>"

definition demo_world :: world where
  "demo_world =
     \<lparr> cwd = ''/m'', files = [''/m/requirements.txt'' \<mapsto> Text ''numpy''],
       images = {}, trace = [] \<rparr>"

text \<open>
  The same model built three times: with its requirements, then with the requirements
  taken out of the build inputs, then with them again.
\<close>

definition demo_world1 :: world where
  "demo_world1 = snd (track_changes demo_host demo_builder None demo_world)"

definition demo_bare_builder :: builder where
  "demo_bare_builder = demo_builder\<lparr>requirements := PNone\<rparr>"

definition demo_world2 :: world where
  "demo_world2 = snd (track_changes demo_host demo_bare_builder None demo_world1)"

text \<open>
  The world after a first build of the model, with the two images the build tool has
  produced present locally and the record of events started afresh.
\<close>

definition demo_built_world :: world where
  "demo_built_world =
     (let w = snd (build_image_s2i demo_host demo_builder ''m'' ''1''
                     False False False False False False demo_world)
      in w\<lparr>images := insert ''m-pip-layer:1'' (insert ''m:1'' (images w)), trace := []\<rparr>)"

section \<open>Reasoning about computations\<close>

lemma io_bind_Inr:
  "io_bind m f w = (Inr r, w') \<longleftrightarrow> (\<exists>x w1. m w = (Inr x, w1) \<and> f x w1 = (Inr r, w'))"
  by (auto simp: io_bind_def split: prod.splits sum.splits)

lemma io_then_Inr:
  "io_then m n w = (Inr r, w') \<longleftrightarrow> (\<exists>x w1. m w = (Inr x, w1) \<and> n w1 = (Inr r, w'))"
  by (simp add: io_then_def io_bind_Inr)

lemma io_return_eq [simp]: "io_return x w = (r, w') \<longleftrightarrow> r = Inr x \<and> w' = w"
  by (auto simp: io_return_def)

lemma io_raise_eq [simp]: "io_raise e w = (r, w') \<longleftrightarrow> r = Inl e \<and> w' = w"
  by (auto simp: io_raise_def)

lemma io_lift_eq [simp]: "io_lift x w = (r, w') \<longleftrightarrow> r = x \<and> w' = w"
  by (auto simp: io_lift_def)

lemma io_when_Inr:
  "io_when c m w = (Inr r, w') \<longleftrightarrow> (if c then m w = (Inr r, w') else w' = w)"
  by (auto simp: io_when_def)

lemma reset_workdir_cwd: "cwd (snd (reset_workdir h f w)) = cwd w"
  by (auto simp: reset_workdir_def io_bind_def getcwd_def io_finally_def chdir_def
           split: prod.splits sum.splits)


lemma silentI: "(\<And>w. filter P (trace (snd (m w))) = filter P (trace w)) \<Longrightarrow> silent P m"
  by (simp add: silent_def)

lemma silentD: "silent P m \<Longrightarrow> filter P (trace (snd (m w))) = filter P (trace w)"
  by (simp add: silent_def)

lemma silent_return [simp]: "silent P (io_return x)"
  by (simp add: silent_def io_return_def)

lemma silent_raise [simp]: "silent P (io_raise e)"
  by (simp add: silent_def io_raise_def)

lemma silent_lift [simp]: "silent P (io_lift x)"
  by (simp add: silent_def io_lift_def)

lemma silent_bind: "silent P m \<Longrightarrow> (\<And>x. silent P (f x)) \<Longrightarrow> silent P (io_bind m f)"
proof (rule silentI)
  fix w
  assume m: "silent P m" and f: "\<And>x. silent P (f x)"
  show "filter P (trace (snd (io_bind m f w))) = filter P (trace w)"
  proof (cases "m w")
    case (Pair r w1)
    have t1: "filter P (trace w1) = filter P (trace w)"
      using silentD [OF m, of w] Pair by simp
    show ?thesis
    proof (cases r)
      case (Inl e)
      with Pair t1 show ?thesis by (simp add: io_bind_def)
    next
      case (Inr x)
      with Pair t1 silentD [OF f, of x w1] show ?thesis by (simp add: io_bind_def)
    qed
  qed
qed

lemma silent_then: "silent P m \<Longrightarrow> silent P n \<Longrightarrow> silent P (io_then m n)"
  by (simp add: io_then_def silent_bind)

lemma silent_when: "silent P m \<Longrightarrow> silent P (io_when c m)"
  by (simp add: io_when_def)

lemma silent_except:
  "silent P m \<Longrightarrow> silent P n \<Longrightarrow> silent P (except_image_not_found m n)"
  apply (rule silentI)
  subgoal for w
    using silentD [of P m w]
    apply (cases "m w")
    subgoal for r w1
      using silentD [of P n w1]
      by (auto simp: except_image_not_found_def split: sum.splits error.splits)
    done
  done

lemma silent_finally: "silent P m \<Longrightarrow> silent P n \<Longrightarrow> silent P (io_finally m n)"
  apply (rule silentI)
  subgoal for w
    using silentD [of P m w]
    apply (cases "m w")
    subgoal for r w1
      using silentD [of P n w1]
      by (auto simp: io_finally_def split: sum.splits prod.splits)
    done
  done

lemma silent_emit: "\<not> P e \<Longrightarrow> silent P (emit e)"
  by (simp add: silent_def emit_def)


lemma silent_chdir: "(\<And>p. \<not> P (Chdir p)) \<Longrightarrow> silent P (chdir h p)"
  by (simp add: silent_def chdir_def)

lemma silent_getcwd [simp]: "silent P (getcwd h)"
  by (simp add: silent_def getcwd_def)

lemma silent_abspath [simp]: "silent P (abspath p)"
  by (simp add: silent_def abspath_def)

lemma silent_makedirs: "\<not> P (Makedirs p) \<Longrightarrow> silent P (makedirs p)"
  by (simp add: makedirs_def silent_emit)

lemma silent_path_exists: "\<not> P (PathExists p) \<Longrightarrow> silent P (path_exists p)"
  by (simp add: silent_def path_exists_def)

lemma silent_read_file: "\<not> P (FileRead p) \<Longrightarrow> silent P (read_file p)"
  by (simp add: silent_def read_file_def split: option.splits)

lemma silent_read_json: "\<not> P (FileRead p) \<Longrightarrow> silent P (read_json p)"
  unfolding read_json_def
  by (intro silent_bind silent_read_file) (simp_all split: content.splits)

lemma silent_write_file: "\<not> P (FileWrite p) \<Longrightarrow> silent P (write_file p c)"
  by (simp add: silent_def write_file_def)

lemma silent_add_image [simp]: "silent P (add_image t)"
  by (simp add: silent_def add_image_def)

lemma silent_hash_loop:
  "(\<And>p. \<not> P (FileRead p)) \<Longrightarrow> silent P (hash_loop h fs d c)"
proof (induction fs arbitrary: d c)
  case Nil
  show ?case by simp
next
  case (Cons f fs)
  show ?case
    by (simp add: Let_def) (intro silent_bind silent_abspath silent_read_file Cons)
qed

lemma silent_track_changes:
  assumes "\<And>p. \<not> P (Makedirs p)" "\<And>p. \<not> P (PathExists p)"
    "\<And>p. \<not> P (FileRead p)" "\<And>p. \<not> P (FileWrite p)"
  shows "silent P (track_changes h b cr)"
  unfolding track_changes_def Let_def
  by (intro silent_then silent_bind silent_when silent_makedirs silent_path_exists
        silent_write_file silent_read_json silent_hash_loop silent_return assms)
     (simp_all add: split_def, (intro silent_then silent_bind silent_when silent_makedirs silent_path_exists
        silent_write_file silent_read_json silent_hash_loop silent_return assms)+)

section \<open>Change detection\<close>

lemma path_join_last: "b \<noteq> [] \<Longrightarrow> last (path_join a b) = last b"
  by (simp add: path_join_def)

lemma hash_file_neq_orchestrator_type_file:
  "hash_file h b cr \<noteq> orchestrator_type_file h b' cr'"
proof
  assume "hash_file h b cr = orchestrator_type_file h b' cr'"
  then have "last (hash_file h b cr) = last (orchestrator_type_file h b' cr')" by simp
  then show False
    by (simp add: hash_file_def orchestrator_type_file_def path_join_last)
qed

lemma tracked_files_last:
  "f \<in> set (tracked_files b) \<Longrightarrow> f \<noteq> [] \<and> last f \<noteq> CHR ''n''"
  by (auto simp: tracked_files_def split: if_splits option.splits)

lemma tracked_path_neq_hash_file:
  assumes "f \<in> set (tracked_files b')"
  shows "path_join c f \<noteq> hash_file h b cr"
proof
  assume "path_join c f = hash_file h b cr"
  then have "last (path_join c f) = last (hash_file h b cr)" by simp
  with tracked_files_last [OF assms] show False
    by (simp add: hash_file_def path_join_last)
qed

lemma hash_loop_frame:
  "hash_loop h fs d c w = (r, w') \<Longrightarrow> files w' = files w \<and> cwd w' = cwd w \<and> images w' = images w"
proof (induction fs arbitrary: d c w)
  case Nil
  then show ?case by simp
next
  case (Cons f fs)
  show ?case
  proof (cases "files w (path_join (cwd w) f)")
    case None
    with Cons.prems show ?thesis
      by (simp add: io_bind_def abspath_def read_file_def)
  next
    case (Some ct)
    with Cons.prems Cons.IH show ?thesis
      by (fastforce simp: io_bind_def abspath_def read_file_def Let_def)
  qed
qed

lemma dict_get_neq_iff: "PStr x \<noteq> dict_get d k \<longleftrightarrow> Some (PStr x) \<noteq> map_of d k"
  by (simp add: dict_get_def split: option.splits)

lemma current_hash_trace [simp]: "current_hash h (w\<lparr>trace := t\<rparr>) f = current_hash h w f"
  by (simp add: current_hash_def)

lemma hash_loop_Inr:
  "hash_loop h fs d c w = (Inr (d', c'), w') \<Longrightarrow>
   (\<forall>f. map_of d' f = (if f \<in> set fs then current_hash h w f else map_of d f)) \<and>
   (c' \<longleftrightarrow> c \<or> (\<exists>f\<in>set fs. current_hash h w f \<noteq> map_of d f)) \<and>
   (\<forall>f\<in>set fs. current_hash h w f \<noteq> None)"
proof (induction fs arbitrary: d c w)
  case Nil
  then show ?case by simp
next
  case (Cons f fs)
  show ?case
  proof (cases "files w (path_join (cwd w) f)")
    case None
    with Cons.prems show ?thesis
      by (simp add: io_bind_def abspath_def read_file_def)
  next
    case (Some ct)
    let ?w1 = "w\<lparr>trace := trace w @ [FileRead (path_join (cwd w) f)]\<rparr>"
    let ?fh = "PStr (sha256 h ct)"
    from Some Cons.prems
    have run: "hash_loop h fs (AList.update f ?fh d)
                 (if ?fh \<noteq> dict_get d f then True else c) ?w1 = (Inr (d', c'), w')"
      by (simp add: io_bind_def abspath_def read_file_def Let_def)
    have cur: "current_hash h w f = Some ?fh"
      using Some by (simp add: current_hash_def)
    note IH = Cons.IH [OF run, unfolded current_hash_trace]
    have 1: "\<forall>g. map_of d' g = (if g \<in> set (f # fs) then current_hash h w g else map_of d g)"
      using IH cur by (auto simp: update_conv')
    have 2: "c' \<longleftrightarrow> c \<or> (\<exists>g\<in>set (f # fs). current_hash h w g \<noteq> map_of d g)"
      using IH cur by (auto simp: update_conv' dict_get_neq_iff split: if_splits)
    have 3: "\<forall>g\<in>set (f # fs). current_hash h w g \<noteq> None"
      using IH cur by auto
    from 1 2 3 show ?thesis by blast
  qed
qed

lemma io_bind_InrE:
  assumes "io_bind m f w = (Inr r, w')"
  obtains x w1 where "m w = (Inr x, w1)" "f x w1 = (Inr r, w')"
  using assms by (auto simp: io_bind_Inr)

lemma io_then_InrE:
  assumes "io_then m n w = (Inr r, w')"
  obtains x w1 where "m w = (Inr x, w1)" "n w1 = (Inr r, w')"
  using assms by (auto simp: io_then_Inr)

lemma read_json_Inr:
  "read_json p w = (Inr d, w') \<longleftrightarrow>
     files w p = Some (Json d) \<and> w' = w\<lparr>trace := trace w @ [FileRead p]\<rparr>"
  by (auto simp: read_json_def read_file_def io_bind_def split: option.splits content.splits)

lemma makedirs_eq:
  "makedirs p w = (r, w') \<longleftrightarrow> r = Inr () \<and> w' = w\<lparr>trace := trace w @ [Makedirs p]\<rparr>"
  by (auto simp: makedirs_def emit_def)

lemma path_exists_eq:
  "path_exists p w = (r, w') \<longleftrightarrow>
     r = Inr (files w p \<noteq> None) \<and> w' = w\<lparr>trace := trace w @ [PathExists p]\<rparr>"
  by (auto simp: path_exists_def)

lemma write_file_eq:
  "write_file p c w = (r, w') \<longleftrightarrow>
     r = Inr () \<and> w' = w\<lparr>files := (files w)(p \<mapsto> c), trace := trace w @ [FileWrite p]\<rparr>"
  by (auto simp: write_file_def)

lemma track_changes_steps:
  assumes run: "track_changes h b cr w = (Inr c, w')"
  defines "hf \<equiv> hash_file h b cr" and "ot \<equiv> orchestrator_type_file h b cr"
  shows "\<exists>old new ch cached w4 w5.
     (files w hf = None \<and> old = [] \<or> files w hf = Some (Json old)) \<and>
     files w4 = (if files w hf = None then (files w)(hf \<mapsto> Json []) else files w) \<and>
     cwd w4 = cwd w \<and>
     hash_loop h (tracked_files b) old False w4 = (Inr (new, ch), w5) \<and>
     (files w ot = None \<and> cached = [] \<or> files w ot = Some (Json cached)) \<and>
     files w' = (files w)(hf \<mapsto> Json new, ot \<mapsto> Json [(''orchestrator'', PStr (orch_value (orchestrator b)))]) \<and>
     cwd w' = cwd w \<and> images w' = images w \<and>
     (c \<longleftrightarrow> ch \<or> PStr (orch_value (orchestrator b)) \<noteq> dict_get cached ''orchestrator'')"
proof -
  have neq: "ot \<noteq> hf"
    unfolding hf_def ot_def using hash_file_neq_orchestrator_type_file [of h b cr b cr] by simp
  from run obtain u1 w1 ex1 w2 u3 w3 old w4 nc w5 u6 w6 ex2 w7 u8 w8 cached w9 u10 w10 where
    s1: "makedirs (cache_folder h b cr) w = (Inr u1, w1)"
    and s2: "path_exists hf w1 = (Inr ex1, w2)"
    and s3: "io_when (\<not> ex1) (write_file hf (Json [])) w2 = (Inr u3, w3)"
    and s4: "read_json hf w3 = (Inr old, w4)"
    and s5: "hash_loop h (tracked_files b) old False w4 = (Inr nc, w5)"
    and s6: "write_file hf (Json (fst nc)) w5 = (Inr u6, w6)"
    and s7: "path_exists ot w6 = (Inr ex2, w7)"
    and s8: "io_when (\<not> ex2) (write_file ot (Json [])) w7 = (Inr u8, w8)"
    and s9: "read_json ot w8 = (Inr cached, w9)"
    and s10: "write_file ot (Json [(''orchestrator'', PStr (orch_value (orchestrator b)))]) w9
                = (Inr u10, w10)"
    and s11: "io_return (if PStr (orch_value (orchestrator b)) \<noteq> dict_get cached ''orchestrator''
               then True else snd nc) w10 = (Inr c, w')"
    unfolding track_changes_def Let_def hf_def [symmetric] ot_def [symmetric] split_def
    by (elim io_then_InrE io_bind_InrE) blast
  obtain new ch where nc: "nc = (new, ch)" by (cases nc)
  from s1 s2 s3 have w3: "files w3 = (if files w hf = None then (files w)(hf \<mapsto> Json []) else files w)"
        "cwd w3 = cwd w" "images w3 = images w"
    by (auto simp: makedirs_eq path_exists_eq write_file_eq io_when_Inr split: if_splits)
  from s4 have old: "files w3 hf = Some (Json old)" and w4: "w4 = w3\<lparr>trace := trace w3 @ [FileRead hf]\<rparr>"
    by (simp_all add: read_json_Inr)
  from hash_loop_frame [OF s5] w4 w3
  have w5: "files w5 = files w3" "cwd w5 = cwd w" "images w5 = images w" by simp_all
  from s6 s7 s8 nc have w8: "files w8 = (if files w5 ot = None then (files w5)(hf \<mapsto> Json new, ot \<mapsto> Json []) else (files w5)(hf \<mapsto> Json new))"
     "cwd w8 = cwd w5" "images w8 = images w5"
    using neq
    by (auto simp: path_exists_eq write_file_eq io_when_Inr split: if_splits)
  from s9 have cached: "files w8 ot = Some (Json cached)" and w9: "w9 = w8\<lparr>trace := trace w8 @ [FileRead ot]\<rparr>"
    by (simp_all add: read_json_Inr)
  from s10 s11 w9 have fin: "files w' = (files w8)(ot \<mapsto> Json [(''orchestrator'', PStr (orch_value (orchestrator b)))])"
      "cwd w' = cwd w8" "images w' = images w8"
    and c: "c \<longleftrightarrow> ch \<or> PStr (orch_value (orchestrator b)) \<noteq> dict_get cached ''orchestrator''"
    using nc by (auto simp: write_file_eq)
  have "files w hf = None \<and> old = [] \<or> files w hf = Some (Json old)"
    using old w3(1) by (auto split: if_splits)
  moreover have "files w4 = (if files w hf = None then (files w)(hf \<mapsto> Json []) else files w)"
    "cwd w4 = cwd w"
    using w4 w3 by simp_all
  moreover have "files w ot = None \<and> cached = [] \<or> files w ot = Some (Json cached)"
    using cached w8(1) w5(1) w3(1) neq by (auto split: if_splits)
  moreover have "files w' = (files w)(hf \<mapsto> Json new, ot \<mapsto> Json [(''orchestrator'', PStr (orch_value (orchestrator b)))])"
    using fin(1) w8(1) w5(1) w3(1) neq by (auto split: if_splits)
  moreover have "cwd w' = cwd w" "images w' = images w"
    using fin w8 w5 by simp_all
  ultimately show ?thesis using s5 nc c by blast
qed

lemma io_bindE:
  assumes "io_bind m f w = (r, w')"
  obtains (fail) e where "m w = (Inl e, w')" "r = Inl e"
        | (ok) x w1 where "m w = (Inr x, w1)" "f x w1 = (r, w')"
  using assms by (auto simp: io_bind_def split: prod.splits sum.splits)

lemma io_thenE:
  assumes "io_then m n w = (r, w')"
  obtains (fail) e where "m w = (Inl e, w')" "r = Inl e"
        | (ok) x w1 where "m w = (Inr x, w1)" "n w1 = (r, w')"
  using assms unfolding io_then_def by (erule io_bindE)

lemma io_when_eq:
  "io_when c m w = (r, w') \<longleftrightarrow> (if c then m w = (r, w') else r = Inr () \<and> w' = w)"
  by (auto simp: io_when_def)

lemma read_json_frame:
  "read_json p w = (r, w') \<Longrightarrow>
     files w' = files w \<and> cwd w' = cwd w \<and> images w' = images w \<and>
     (\<forall>d. r = Inr d \<longrightarrow> files w p = Some (Json d))"
  by (auto simp: read_json_def read_file_def io_bind_def split: option.splits content.splits)

lemma current_hash_cong:
  "cwd w' = cwd w \<Longrightarrow> files w' (path_join (cwd w) f) = files w (path_join (cwd w) f) \<Longrightarrow>
   current_hash h w' f = current_hash h w f"
  by (simp add: current_hash_def)

lemma track_changes_result:
  assumes run: "track_changes h b cr w = (Inr c, w')"
  shows "(\<forall>f. map_of (recorded_hashes h b cr w') f =
            (if f \<in> set (tracked_files b) then current_hash h w f
             else map_of (recorded_hashes h b cr w) f)) \<and>
         recorded_orchestrator h b cr w' = Some (PStr (orch_value (orchestrator b))) \<and>
         (c \<longleftrightarrow> (\<exists>f\<in>set (tracked_files b).
                    current_hash h w f \<noteq> map_of (recorded_hashes h b cr w) f) \<or>
                recorded_orchestrator h b cr w \<noteq> Some (PStr (orch_value (orchestrator b)))) \<and>
         (\<forall>f\<in>set (tracked_files b). current_hash h w f \<noteq> None) \<and>
         cwd w' = cwd w \<and> images w' = images w \<and>
         (\<forall>p. p \<noteq> hash_file h b cr \<longrightarrow> p \<noteq> orchestrator_type_file h b cr \<longrightarrow>
               files w' p = files w p)"
proof -
  let ?hf = "hash_file h b cr" and ?ot = "orchestrator_type_file h b cr"
  have neq: "?ot \<noteq> ?hf"
    using hash_file_neq_orchestrator_type_file [of h b cr b cr] by simp
  from track_changes_steps [OF run] obtain old new ch cached w4 w5 where
    old: "files w ?hf = None \<and> old = [] \<or> files w ?hf = Some (Json old)"
    and w4: "files w4 = (if files w ?hf = None then (files w)(?hf \<mapsto> Json []) else files w)"
            "cwd w4 = cwd w"
    and loop: "hash_loop h (tracked_files b) old False w4 = (Inr (new, ch), w5)"
    and cached: "files w ?ot = None \<and> cached = [] \<or> files w ?ot = Some (Json cached)"
    and fin: "files w' = (files w)(?hf \<mapsto> Json new,
                ?ot \<mapsto> Json [(''orchestrator'', PStr (orch_value (orchestrator b)))])"
             "cwd w' = cwd w" "images w' = images w"
    and c: "c \<longleftrightarrow> ch \<or> PStr (orch_value (orchestrator b)) \<noteq> dict_get cached ''orchestrator''"
    by blast
  have cur: "current_hash h w4 f = current_hash h w f" if "f \<in> set (tracked_files b)" for f
    using w4 tracked_path_neq_hash_file [OF that, of "cwd w" h b cr]
    by (intro current_hash_cong) auto
  have rec: "recorded_hashes h b cr w = old"
    using old by (auto simp: recorded_hashes_def)
  have rec': "recorded_hashes h b cr w' = new"
    using fin(1) neq by (simp add: recorded_hashes_def)
  have ro: "recorded_orchestrator h b cr w = map_of cached ''orchestrator''"
    using cached by (auto simp: recorded_orchestrator_def)
  have ro': "recorded_orchestrator h b cr w' = Some (PStr (orch_value (orchestrator b)))"
    using fin(1) by (simp add: recorded_orchestrator_def)
  note L = hash_loop_Inr [OF loop]
  have 1: "\<forall>f. map_of (recorded_hashes h b cr w') f =
            (if f \<in> set (tracked_files b) then current_hash h w f
             else map_of (recorded_hashes h b cr w) f)"
    using L cur by (simp add: rec rec')
  have 3: "c \<longleftrightarrow> (\<exists>f\<in>set (tracked_files b).
                    current_hash h w f \<noteq> map_of (recorded_hashes h b cr w) f) \<or>
                recorded_orchestrator h b cr w \<noteq> Some (PStr (orch_value (orchestrator b)))"
    using L cur c by (auto simp: rec ro dict_get_neq_iff)
  have 4: "\<forall>f\<in>set (tracked_files b). current_hash h w f \<noteq> None"
    using L cur by auto
  have 5: "\<forall>p. p \<noteq> ?hf \<longrightarrow> p \<noteq> ?ot \<longrightarrow> files w' p = files w p"
    using fin(1) by simp
  from 1 ro' 3 4 fin(2,3) 5 show ?thesis by blast
qed

lemma hash_loop_any:
  assumes "hash_loop h fs d c w = (r, w')"
  shows "files w' = files w \<and> cwd w' = cwd w \<and> images w' = images w \<and>
         (\<forall>nc. r = Inr nc \<longrightarrow> (\<forall>f. f \<notin> set fs \<longrightarrow> map_of (fst nc) f = map_of d f))"
proof -
  have "map_of (fst nc) f = map_of d f" if "r = Inr nc" "f \<notin> set fs" for nc f
    using hash_loop_Inr [of h fs d c w "fst nc" "snd nc" w'] assms that by simp
  with hash_loop_frame [OF assms] show ?thesis by blast
qed

lemma track_changes_untracked:
  assumes run: "track_changes h b cr w = (r, w')" and f: "f \<notin> set (tracked_files b)"
  shows "map_of (recorded_hashes h b cr w') f = map_of (recorded_hashes h b cr w) f"
proof -
  let ?hf = "hash_file h b cr" and ?ot = "orchestrator_type_file h b cr"
  have neq: "?ot \<noteq> ?hf"
    using hash_file_neq_orchestrator_type_file [of h b cr b cr] by simp
  show ?thesis
    using run unfolding track_changes_def Let_def split_def
    apply (elim io_thenE io_bindE)
    using neq f
    by (auto simp: recorded_hashes_def makedirs_eq path_exists_eq write_file_eq io_when_eq
          split: if_splits option.splits content.splits
          dest!: read_json_frame hash_loop_any)
qed

lemma hash_file_cong:
  "name b2 = name b1 \<Longrightarrow> version b2 = version b1 \<Longrightarrow> hash_file h b2 cr = hash_file h b1 cr"
  by (simp add: hash_file_def cache_folder_def)

lemma orchestrator_type_file_cong:
  "name b2 = name b1 \<Longrightarrow> version b2 = version b1 \<Longrightarrow>
   orchestrator_type_file h b2 cr = orchestrator_type_file h b1 cr"
  by (simp add: orchestrator_type_file_def cache_folder_def)

lemma recorded_hashes_cong:
  "name b2 = name b1 \<Longrightarrow> version b2 = version b1 \<Longrightarrow>
   files v (hash_file h b1 cr) = files w (hash_file h b1 cr) \<Longrightarrow>
   recorded_hashes h b2 cr v = recorded_hashes h b1 cr w"
  using hash_file_cong [of b2 b1 h cr] by (simp add: recorded_hashes_def)

lemma recorded_orchestrator_cong:
  "name b2 = name b1 \<Longrightarrow> version b2 = version b1 \<Longrightarrow>
   files v (orchestrator_type_file h b1 cr) = files w (orchestrator_type_file h b1 cr) \<Longrightarrow>
   recorded_orchestrator h b2 cr v = recorded_orchestrator h b1 cr w"
  using orchestrator_type_file_cong [of b2 b1 h cr] by (simp add: recorded_orchestrator_def)

lemma track_changes_hashes:
  assumes "track_changes h b cr w = (Inr c, w')"
  shows "map_of (recorded_hashes h b cr w') f =
     (if f \<in> set (tracked_files b) then current_hash h w f
      else map_of (recorded_hashes h b cr w) f)"
  by (rule track_changes_result [OF assms, THEN conjunct1, rule_format])

lemma track_changes_orchestrator:
  assumes "track_changes h b cr w = (Inr c, w')"
  shows "recorded_orchestrator h b cr w' = Some (PStr (orch_value (orchestrator b)))"
  by (rule track_changes_result [OF assms, THEN conjunct2, THEN conjunct1])

lemma track_changes_changed:
  assumes "track_changes h b cr w = (Inr c, w')"
  shows "c \<longleftrightarrow> (\<exists>f\<in>set (tracked_files b).
                    current_hash h w f \<noteq> map_of (recorded_hashes h b cr w) f) \<or>
          recorded_orchestrator h b cr w \<noteq> Some (PStr (orch_value (orchestrator b)))"
  by (rule track_changes_result [OF assms, THEN conjunct2, THEN conjunct2, THEN conjunct1])

lemma track_changes_frame:
  assumes "track_changes h b cr w = (Inr c, w')"
  shows "cwd w' = cwd w" and "images w' = images w"
  using track_changes_result [OF assms, THEN conjunct2, THEN conjunct2, THEN conjunct2,
          THEN conjunct2]
  by simp_all

text \<open>
  C2. Two consecutive runs of change detection for the same model name and version,
  the cache files kept in between: the second run returns \<open>True\<close> exactly when the
  current hash of some tracked file differs from the hash the first run left recorded
  under that name (no recorded hash counts as differing), or the orchestrator differs
  from the one the first run recorded. What the first run recorded for its tracked
  files is their hash at that time; so with the same tracked files, identical contents
  and the same orchestrator, the second run returns \<open>False\<close>.
\<close>

theorem second_run_changed_iff:
  assumes first: "track_changes h b1 cr w0 = (Inr c1, w1)"
    and same: "name b2 = name b1" "version b2 = version b1"
    and kept: "files v (hash_file h b1 cr) = files w1 (hash_file h b1 cr)"
      "files v (orchestrator_type_file h b1 cr) = files w1 (orchestrator_type_file h b1 cr)"
    and second: "track_changes h b2 cr v = (Inr c2, w2)"
  shows "(c2 \<longleftrightarrow>
            (\<exists>f\<in>set (tracked_files b2).
                current_hash h v f \<noteq> map_of (recorded_hashes h b1 cr w1) f) \<or>
            orch_value (orchestrator b2) \<noteq> orch_value (orchestrator b1)) \<and>
         (\<forall>f\<in>set (tracked_files b1).
            map_of (recorded_hashes h b1 cr w1) f = current_hash h w0 f) \<and>
         (tracked_files b2 = tracked_files b1 \<and>
          (\<forall>f\<in>set (tracked_files b1).
             files v (path_join (cwd v) f) = files w0 (path_join (cwd w0) f)) \<and>
          orch_value (orchestrator b2) = orch_value (orchestrator b1) \<longrightarrow> \<not> c2)"
proof -
  have rh: "recorded_hashes h b2 cr v = recorded_hashes h b1 cr w1"
    using same kept(1) by (rule recorded_hashes_cong)
  have "recorded_orchestrator h b2 cr v = recorded_orchestrator h b1 cr w1"
    using same kept(2) by (rule recorded_orchestrator_cong)
  then have ro: "recorded_orchestrator h b2 cr v = Some (PStr (orch_value (orchestrator b1)))"
    by (simp only: track_changes_orchestrator [OF first])
  have ov: "(Some (PStr (orch_value (orchestrator b1))) \<noteq> Some (PStr (orch_value (orchestrator b2))))
            \<longleftrightarrow> orch_value (orchestrator b2) \<noteq> orch_value (orchestrator b1)"
    by auto
  have iff: "c2 \<longleftrightarrow>
            (\<exists>f\<in>set (tracked_files b2).
                current_hash h v f \<noteq> map_of (recorded_hashes h b1 cr w1) f) \<or>
            orch_value (orchestrator b2) \<noteq> orch_value (orchestrator b1)"
    using track_changes_changed [OF second] unfolding rh ro ov .
  have rec: "\<forall>f\<in>set (tracked_files b1).
            map_of (recorded_hashes h b1 cr w1) f = current_hash h w0 f"
    by (simp add: track_changes_hashes [OF first])
  have idem: "\<not> c2"
    if tf: "tracked_files b2 = tracked_files b1"
      and ct: "\<forall>f\<in>set (tracked_files b1).
             files v (path_join (cwd v) f) = files w0 (path_join (cwd w0) f)"
      and oo: "orch_value (orchestrator b2) = orch_value (orchestrator b1)"
  proof -
    have ch: "current_hash h v f = current_hash h w0 f" if "f \<in> set (tracked_files b1)" for f
      using ct that by (simp add: current_hash_def)
    have "\<not> (\<exists>f\<in>set (tracked_files b2).
                current_hash h v f \<noteq> map_of (recorded_hashes h b1 cr w1) f)"
      using rec ch by (simp add: tf)
    with iff oo show ?thesis by simp
  qed
  show ?thesis
  proof (intro conjI impI)
    show "c2 \<longleftrightarrow>
            (\<exists>f\<in>set (tracked_files b2).
                current_hash h v f \<noteq> map_of (recorded_hashes h b1 cr w1) f) \<or>
            orch_value (orchestrator b2) \<noteq> orch_value (orchestrator b1)"
      by (rule iff)
    show "\<forall>f\<in>set (tracked_files b1).
            map_of (recorded_hashes h b1 cr w1) f = current_hash h w0 f"
      by (rule rec)
    show "\<not> c2"
      if "tracked_files b2 = tracked_files b1 \<and>
          (\<forall>f\<in>set (tracked_files b1).
             files v (path_join (cwd v) f) = files w0 (path_join (cwd w0) f)) \<and>
          orch_value (orchestrator b2) = orch_value (orchestrator b1)"
      using that idem by blast
  qed
qed

theorem second_run_changed_iff_witness:
  "fst (track_changes demo_host demo_builder None demo_world) = Inr True \<and>
   fst (track_changes demo_host demo_builder None
          (snd (track_changes demo_host demo_builder None demo_world))) = Inr False \<and>
   \<not> (\<exists>f\<in>set (tracked_files demo_builder).
          current_hash demo_host (snd (track_changes demo_host demo_builder None demo_world)) f \<noteq>
          map_of (recorded_hashes demo_host demo_builder None
                    (snd (track_changes demo_host demo_builder None demo_world))) f)"
proof -
  let ?w1 = "snd (track_changes demo_host demo_builder None demo_world)"
  let ?w2 = "snd (track_changes demo_host demo_builder None ?w1)"
  have e1: "fst (track_changes demo_host demo_builder None demo_world) = Inr True"
    by code_simp
  have e2: "fst (track_changes demo_host demo_builder None ?w1) = Inr False"
    by code_simp
  have r1: "track_changes demo_host demo_builder None demo_world = (Inr True, ?w1)"
    using e1 by (simp add: prod_eq_iff)
  have r2: "track_changes demo_host demo_builder None ?w1 = (Inr False, ?w2)"
    using e2 by (simp add: prod_eq_iff)
  from second_run_changed_iff [OF r1 refl refl refl refl r2]
  have "\<not> (\<exists>f\<in>set (tracked_files demo_builder).
          current_hash demo_host ?w1 f \<noteq>
          map_of (recorded_hashes demo_host demo_builder None ?w1) f)"
    by simp
  with e1 e2 show ?thesis by simp
qed

text \<open>
  C10. A run of change detection, whatever its outcome, leaves the recorded hash of
  every file name it does not track as it was; a run that returns has recorded, for
  each file it tracks, the hash of its current content. So when a file tracked by one
  run is left out by the next and tracked again, with identical content, by a third,
  the third run finds the file's hash equal to the recorded one: the file is not among
  the reasons for which that run reports a change.
\<close>

theorem hash_record_retained:
  assumes r1: "track_changes h b1 cr w0 = (Inr c1, w1)"
    and r2: "track_changes h b2 cr v1 = (r, w2)"
    and r3: "track_changes h b3 cr v2 = (Inr c3, w3)"
    and names: "name b2 = name b1" "version b2 = version b1"
               "name b3 = name b1" "version b3 = version b1"
    and kept1: "files v1 (hash_file h b1 cr) = files w1 (hash_file h b1 cr)"
    and kept2: "files v2 (hash_file h b1 cr) = files w2 (hash_file h b1 cr)"
    and tracked: "fname \<in> set (tracked_files b1)" "fname \<notin> set (tracked_files b2)"
    and content: "files v2 (path_join (cwd v2) fname) = files w0 (path_join (cwd w0) fname)"
  shows "(\<forall>f. f \<notin> set (tracked_files b2) \<longrightarrow>
            map_of (recorded_hashes h b2 cr w2) f = map_of (recorded_hashes h b2 cr v1) f) \<and>
         (\<forall>c2. r = Inr c2 \<longrightarrow>
            (\<forall>f\<in>set (tracked_files b2).
               map_of (recorded_hashes h b2 cr w2) f = current_hash h v1 f)) \<and>
         map_of (recorded_hashes h b3 cr v2) fname = current_hash h v2 fname \<and>
         (c3 \<longleftrightarrow>
            (\<exists>g\<in>set (tracked_files b3) - {fname}.
                current_hash h v2 g \<noteq> map_of (recorded_hashes h b3 cr v2) g) \<or>
            recorded_orchestrator h b3 cr v2 \<noteq> Some (PStr (orch_value (orchestrator b3))))"
proof -
  have 1: "\<forall>f. f \<notin> set (tracked_files b2) \<longrightarrow>
            map_of (recorded_hashes h b2 cr w2) f = map_of (recorded_hashes h b2 cr v1) f"
    using track_changes_untracked [OF r2] by blast
  have 2: "\<forall>c2. r = Inr c2 \<longrightarrow>
            (\<forall>f\<in>set (tracked_files b2).
               map_of (recorded_hashes h b2 cr w2) f = current_hash h v1 f)"
  proof (intro allI impI ballI)
    fix c2 f
    assume "r = Inr c2" and f: "f \<in> set (tracked_files b2)"
    with r2 have "track_changes h b2 cr v1 = (Inr c2, w2)" by simp
    from track_changes_hashes [OF this, of f] f
    show "map_of (recorded_hashes h b2 cr w2) f = current_hash h v1 f" by simp
  qed
  have a: "recorded_hashes h b3 cr v2 = recorded_hashes h b1 cr w2"
    using names(3,4) kept2 by (rule recorded_hashes_cong)
  have b: "recorded_hashes h b2 cr w2 = recorded_hashes h b1 cr w2"
    using names(1,2) refl by (rule recorded_hashes_cong)
  have c: "recorded_hashes h b2 cr v1 = recorded_hashes h b1 cr w1"
    using names(1,2) kept1 by (rule recorded_hashes_cong)
  have d: "map_of (recorded_hashes h b1 cr w1) fname = current_hash h w0 fname"
    using track_changes_hashes [OF r1, of fname] tracked(1) by simp
  have e: "current_hash h v2 fname = current_hash h w0 fname"
    using content by (simp add: current_hash_def)
  have "map_of (recorded_hashes h b3 cr v2) fname = map_of (recorded_hashes h b2 cr w2) fname"
    by (simp only: a b)
  also have "\<dots> = map_of (recorded_hashes h b2 cr v1) fname"
    using 1 tracked(2) by blast
  also have "\<dots> = current_hash h v2 fname"
    by (simp only: c d e)
  finally have 3: "map_of (recorded_hashes h b3 cr v2) fname = current_hash h v2 fname" .
  have ex: "(\<exists>g\<in>set (tracked_files b3). current_hash h v2 g \<noteq> map_of (recorded_hashes h b3 cr v2) g)
        \<longleftrightarrow> (\<exists>g\<in>set (tracked_files b3) - {fname}.
                current_hash h v2 g \<noteq> map_of (recorded_hashes h b3 cr v2) g)"
    using 3 by auto
  have 4: "c3 \<longleftrightarrow>
            (\<exists>g\<in>set (tracked_files b3) - {fname}.
                current_hash h v2 g \<noteq> map_of (recorded_hashes h b3 cr v2) g) \<or>
            recorded_orchestrator h b3 cr v2 \<noteq> Some (PStr (orch_value (orchestrator b3)))"
    using track_changes_changed [OF r3] unfolding ex .
  show ?thesis
    by (intro conjI) (rule 1, rule 2, rule 3, rule 4)
qed

theorem hash_record_retained_witness:
  "fst (track_changes demo_host demo_builder None demo_world) = Inr True \<and>
   fst (track_changes demo_host demo_bare_builder None demo_world1) = Inr False \<and>
   fst (track_changes demo_host demo_builder None demo_world2) = Inr False \<and>
   map_of (recorded_hashes demo_host demo_builder None demo_world2) ''requirements.txt''
     = current_hash demo_host demo_world2 ''requirements.txt''"
proof -
  let ?w3 = "snd (track_changes demo_host demo_builder None demo_world2)"
  have e1: "fst (track_changes demo_host demo_builder None demo_world) = Inr True"
    by code_simp
  have e2: "fst (track_changes demo_host demo_bare_builder None demo_world1) = Inr False"
    by code_simp
  have e3: "fst (track_changes demo_host demo_builder None demo_world2) = Inr False"
    by code_simp
  have r1: "track_changes demo_host demo_builder None demo_world = (Inr True, demo_world1)"
    using e1 by (simp add: prod_eq_iff demo_world1_def)
  have r2: "track_changes demo_host demo_bare_builder None demo_world1 = (Inr False, demo_world2)"
    using e2 by (simp add: prod_eq_iff demo_world2_def)
  have r3: "track_changes demo_host demo_builder None demo_world2 = (Inr False, ?w3)"
    using e3 by (simp add: prod_eq_iff)
  have n: "name demo_bare_builder = name demo_builder"
    "version demo_bare_builder = version demo_builder"
    by (simp_all add: demo_bare_builder_def)
  have f1: "''requirements.txt'' \<in> set (tracked_files demo_builder)"
    by code_simp
  have f2: "''requirements.txt'' \<notin> set (tracked_files demo_bare_builder)"
    by code_simp
  have ct: "files demo_world2 (path_join (cwd demo_world2) ''requirements.txt'')
          = files demo_world (path_join (cwd demo_world) ''requirements.txt'')"
    by code_simp
  from hash_record_retained [OF r1 r2 r3 n refl refl refl refl f1 f2 ct]
  have "map_of (recorded_hashes demo_host demo_builder None demo_world2) ''requirements.txt''
     = current_hash demo_host demo_world2 ''requirements.txt''"
    by blast
  with e1 e2 e3 show ?thesis by simp
qed

section \<open>Deployment properties\<close>

lemma orch_in_cases:
  "orch_in x [AWS_EKS, LOCAL_DOCKER_K8S] \<longleftrightarrow>
     x \<in> {AWS_EKS, LOCAL_DOCKER_K8S, TRAINING_AWS_EKS, TRAINING_LOCAL_DOCKER_K8S}"
  "orch_in x [LOCAL_DOCKER_LAMBDA, AWS_LAMBDA] \<longleftrightarrow> x \<in> {LOCAL_DOCKER_LAMBDA, AWS_LAMBDA}"
  "orch_in x [LOCAL_DOCKER, AWS_SAGEMAKER, AWS_SAGEMAKER_ASYNC] \<longleftrightarrow>
     x \<in> {LOCAL_DOCKER, AWS_SAGEMAKER, AWS_SAGEMAKER_ASYNC}"
  "orch_in x [LOCAL_DOCKER, LOCAL_DOCKER_LAMBDA, LOCAL_DOCKER_K8S] \<longleftrightarrow>
     x \<in> {LOCAL_DOCKER, LOCAL_DOCKER_LAMBDA, LOCAL_DOCKER_K8S, TRAINING_LOCAL_DOCKER_K8S}"
  "orch_in x [LOCAL_DOCKER_K8S] \<longleftrightarrow> x \<in> {LOCAL_DOCKER_K8S, TRAINING_LOCAL_DOCKER_K8S}"
  by (cases x; simp add: orch_in_def)+


lemma io_bind_return [simp]: "io_bind (io_return x) f = f x"
  by (rule ext) (simp add: io_bind_def io_return_def)

text \<open>
  C5. The Kubernetes manifest takes a caller-supplied value only when that value is
  truthy: the entries are computed as \<^verbatim>\<open>kubernetes_config.get(key) or default\<close>. A
  build for \<^verbatim>\<open>AWS_EKS\<close> whose properties carry
  \<^verbatim>\<open>{"kubernetes_config": {"cooldownPeriod": 0}}\<close> returns a manifest with
  \<^verbatim>\<open>cooldownPeriod = 1800\<close>: the supplied zero is replaced by the default.
\<close>

theorem k8s_zero_override_lost:
  "fst (get_deployment_properties (demo_builder\<lparr>orchestrator := AWS_EKS\<rparr>)
          (Some [(''kubernetes_config'', PDict [(''cooldownPeriod'', PInt 0)])]) [] demo_world)
   = Inr [(''kubernetes_config'', PDict
            [(''cooldownPeriod'', PInt 1800), (''maxReplicaCount'', PInt 5),
             (''minReplicaCount'', PInt 0), (''targetAverageUtilization'', PFloat (1 / 2)),
             (''gpuTargetAverageUtilization'', PInt 60),
             (''targetMemoryRequirement'', PStr ''512Mi''),
             (''targetMemoryLimit'', PStr ''4Gi''), (''volumeMountName'', PStr ''efs-vpc''),
             (''mountPath'', PStr ''/shared''), (''numThreads'', PInt 1),
             (''enableCuda'', PBool False)])] \<and>
   files (snd (get_deployment_properties (demo_builder\<lparr>orchestrator := AWS_EKS\<rparr>)
          (Some [(''kubernetes_config'', PDict [(''cooldownPeriod'', PInt 0)])]) [] demo_world))
      ''/m/m_config.json''
   = Some (Json
            [(''cooldownPeriod'', PInt 1800), (''maxReplicaCount'', PInt 5),
             (''minReplicaCount'', PInt 0), (''targetAverageUtilization'', PFloat (1 / 2)),
             (''gpuTargetAverageUtilization'', PInt 60),
             (''targetMemoryRequirement'', PStr ''512Mi''),
             (''targetMemoryLimit'', PStr ''4Gi''), (''volumeMountName'', PStr ''efs-vpc''),
             (''mountPath'', PStr ''/shared''), (''numThreads'', PInt 1),
             (''enableCuda'', PBool False)])"
  by code_simp




section \<open>The layered build\<close>

lemma keeps_imagesI: "(\<And>w. images w \<subseteq> images (snd (m w))) \<Longrightarrow> keeps_images m"
  by (simp add: keeps_images_def)

lemma keeps_imagesD: "keeps_images m \<Longrightarrow> images w \<subseteq> images (snd (m w))"
  by (simp add: keeps_images_def)

lemma keeps_images_return [simp]: "keeps_images (io_return x)"
  by (simp add: keeps_images_def io_return_def)

lemma keeps_images_raise [simp]: "keeps_images (io_raise e)"
  by (simp add: keeps_images_def io_raise_def)

lemma keeps_images_lift [simp]: "keeps_images (io_lift x)"
  by (simp add: keeps_images_def io_lift_def)

lemma keeps_images_emit [simp]: "keeps_images (emit e)"
  by (simp add: keeps_images_def emit_def)

lemma keeps_images_add_image [simp]: "keeps_images (add_image t)"
  by (auto simp: keeps_images_def add_image_def)

lemma keeps_images_bind:
  assumes m: "keeps_images m" and f: "\<And>x. keeps_images (f x)"
  shows "keeps_images (io_bind m f)"
proof (rule keeps_imagesI)
  fix w
  obtain r w1 where mw: "m w = (r, w1)" by (cases "m w")
  have 1: "images w \<subseteq> images w1"
    using keeps_imagesD [OF m, of w] mw by simp
  show "images w \<subseteq> images (snd (io_bind m f w))"
  proof (cases r)
    case (Inl e)
    with mw 1 show ?thesis by (simp add: io_bind_def)
  next
    case (Inr x)
    with mw 1 keeps_imagesD [OF f, of w1 x] show ?thesis
      by (auto simp: io_bind_def)
  qed
qed

lemma keeps_images_then: "keeps_images m \<Longrightarrow> keeps_images n \<Longrightarrow> keeps_images (io_then m n)"
  by (simp add: io_then_def keeps_images_bind)

lemma keeps_images_when: "keeps_images m \<Longrightarrow> keeps_images (io_when c m)"
  by (simp add: io_when_def)

lemma keeps_images_except:
  assumes m: "keeps_images m" and n: "keeps_images n"
  shows "keeps_images (except_image_not_found m n)"
proof (rule keeps_imagesI)
  fix w
  obtain r w1 where mw: "m w = (r, w1)" by (cases "m w")
  have 1: "images w \<subseteq> images w1"
    using keeps_imagesD [OF m, of w] mw by simp
  have 2: "images w1 \<subseteq> images (snd (n w1))"
    by (rule keeps_imagesD [OF n])
  show "images w \<subseteq> images (snd (except_image_not_found m n w))"
    using mw 1 2 by (auto simp: except_image_not_found_def split: sum.splits error.splits)
qed

lemma keeps_images_system [simp]: "keeps_images (system h c)"
  by (simp add: system_def keeps_images_then)

lemma keeps_images_images_get [simp]: "keeps_images (images_get t)"
  by (simp add: keeps_images_def images_get_def io_then_def io_bind_def emit_def)

lemma keeps_images_ecr_login [simp]: "keeps_images (aws_ecr_login h r n)"
  by (simp add: aws_ecr_login_def)

lemma keeps_images_pull [simp]: "keeps_images (images_pull h r)"
  by (simp add: images_pull_def keeps_images_then)

lemma keeps_images_download [simp]: "keeps_images (download_base_image h base)"
  unfolding download_base_image_def Let_def
  by (intro keeps_images_then) simp_all

lemma silent_system: "\<not> P (System c) \<Longrightarrow> silent P (system h c)"
  by (simp add: system_def silent_then silent_emit)

lemma silent_images_get: "\<not> P (ImageGet t) \<Longrightarrow> silent P (images_get t)"
  by (simp add: silent_def images_get_def io_then_def io_bind_def emit_def)

lemma is_s2i_build_command [simp]: "is_s2i_build (System (s2i_command h b src tgt))"
  by (simp add: s2i_command_def)

lemma is_s2i_build_docker_pull [simp]: "\<not> is_s2i_build (System (''docker pull '' @ x))"
  by simp

lemma silent_ecr_login: "\<not> P (EcrLogin r n) \<Longrightarrow> silent P (aws_ecr_login h r n)"
  by (simp add: aws_ecr_login_def silent_emit)

lemma silent_pull: "\<not> P (ImagePull r) \<Longrightarrow> silent P (images_pull h r)"
  by (simp add: images_pull_def silent_then silent_emit)

lemma silent_s2i_download: "silent is_s2i_build (download_base_image h base)"
  unfolding download_base_image_def Let_def
  by (intro silent_then silent_emit silent_system silent_images_get silent_add_image
        silent_ecr_login silent_pull) simp_all

lemma silent_calls:
  "silent is_s2i_build m \<Longrightarrow> m w = (r, w') \<Longrightarrow> build_tool_calls w' = build_tool_calls w"
  using silentD [of is_s2i_build m w] by (simp add: build_tool_calls_def)

lemma silent_pulls:
  "silent is_pull m \<Longrightarrow> m w = (r, w') \<Longrightarrow> registry_pulls w' = registry_pulls w"
  using silentD [of is_pull m w] by (simp add: registry_pulls_def)

lemma keeps_images_sub: "keeps_images m \<Longrightarrow> m w = (r, w') \<Longrightarrow> images w \<subseteq> images w'"
  using keeps_imagesD [of m w] by simp

lemma emit_eq: "emit e w = (r, w') \<longleftrightarrow> r = Inr () \<and> w' = w\<lparr>trace := trace w @ [e]\<rparr>"
  by (auto simp: emit_def)

lemma system_Inr:
  "system h c w = (Inr u, w') \<longleftrightarrow> system_ok h c \<and> w' = w\<lparr>trace := trace w @ [System c]\<rparr>"
  by (auto simp: system_def io_then_def io_bind_def emit_def)

lemma take_s2i_command [simp]: "take 10 (s2i_command h b src tgt) = ''s2i build ''"
  by (simp add: s2i_command_def)

lemma take_12_s2i_command [simp]: "take 12 (s2i_command h b src tgt) = ''s2i build -E''"
  by (simp add: s2i_command_def)

lemma is_pull_docker_pull [simp]: "is_pull (System (''docker pull '' @ x))"
  by simp

lemma create_prediction_image_s2i_Inr:
  assumes "create_prediction_image_s2i h b src tgt l k w = (Inr u, w')"
  shows "build_tool_calls w' = build_tool_calls w @ [System (s2i_command h b src tgt)]"
    and "images w' = images w" and "registry_pulls w' = registry_pulls w"
  using assms unfolding create_prediction_image_s2i_def
  by (auto simp: io_then_Inr emit_eq system_Inr build_tool_calls_def registry_pulls_def
           split: if_splits)

lemma images_get_Inr:
  "images_get t w = (Inr u, w') \<longleftrightarrow> t \<in> images w \<and> w' = w\<lparr>trace := trace w @ [ImageGet t]\<rparr>"
  by (auto simp: images_get_def io_then_def io_bind_def emit_def)

lemma download_base_image_Inr:
  assumes "download_base_image h base w = (Inr u, w')"
  shows "base \<in> images w'"
    and "registry_pulls w' = registry_pulls w @
           [ImagePull (get_docker_registry h (region_name h) @ ''/'' @ base),
            System (''docker pull '' @ get_docker_registry h (region_name h) @ ''/'' @ base)]"
  using assms unfolding download_base_image_def Let_def aws_ecr_login_def images_pull_def
  by (auto simp: io_then_Inr emit_eq system_Inr images_get_Inr add_image_def registry_pulls_def
           split: if_splits)

lemma except_found:
  "t \<in> images w \<Longrightarrow>
   except_image_not_found (images_get t) handler w = (Inr (), w\<lparr>trace := trace w @ [ImageGet t]\<rparr>)"
  by (simp add: except_image_not_found_def images_get_def io_then_def io_bind_def emit_def)

lemma gate:
  assumes "(if changed then io_return True
            else except_image_not_found (io_then (images_get pip) (io_return fs0))
                   (io_return True)) w = (Inr fs, w')"
  shows "build_tool_calls w' = build_tool_calls w" and "registry_pulls w' = registry_pulls w"
    and "images w' = images w"
    and "changed \<or> fs0 \<Longrightarrow> fs" and "\<not> changed \<Longrightarrow> pip \<in> images w \<Longrightarrow> fs = fs0"
  using assms
  by (auto simp: except_image_not_found_def images_get_def io_then_def io_bind_def emit_def
        io_return_def build_tool_calls_def registry_pulls_def split: if_splits)

lemma chdir_Inr:
  "chdir h p w = (Inr u, w') \<longleftrightarrow> is_dir h p \<and> w' = w\<lparr>cwd := p, trace := trace w @ [Chdir p]\<rparr>"
  by (auto simp: chdir_def)

lemma reset_workdir_InrE:
  assumes "reset_workdir h f w = (Inr r, w')"
  obtains wb where "f w = (Inr r, wb)" "chdir h (cwd w) wb = (Inr (), w')"
  using assms
  by (auto simp: reset_workdir_def io_bind_def getcwd_def io_finally_def
           split: if_splits prod.splits sum.splits)

lemma get_docker_client_Inr:
  "get_docker_client h w = (Inr u, w') \<longleftrightarrow>
     docker_client_ok h \<and> w' = w\<lparr>trace := trace w @ [DockerClient]\<rparr>"
  by (auto simp: get_docker_client_def emit_def io_raise_def)

lemma which_s2i_eq:
  "which_s2i h w = (r, w') \<longleftrightarrow>
     r = Inr (s2i_on_path h) \<and> w' = w\<lparr>trace := trace w @ [Which ''s2i'']\<rparr>"
  by (auto simp: which_s2i_def io_then_def io_bind_def emit_def io_return_def)

lemma build_image_s2i_steps:
  assumes run: "build_image_s2i h b n v ec ee cd fs0 ad ui w = (Inr r, w')"
  obtains u1 w1 changed w2 u3 w3 base w4 u5 w5 u6 w6 found w7 u8 w8 fs w9 u10 w10 u11 w11
      u12 w12 where
    "chdir h (location b) w = (Inr u1, w1)"
    "track_changes h b None w1 = (Inr changed, w2)"
    "get_docker_client h w2 = (Inr u3, w3)"
    "io_lift (get_base_name (current_env h) ee
        (orch_in (orchestrator b) [LOCAL_DOCKER_LAMBDA, AWS_LAMBDA])
        ec cd (orch_in (orchestrator b) [AWS_EKS, LOCAL_DOCKER_K8S]) 1 False) w3 = (Inr base, w4)"
    "io_when ad (download_base_image h base) w4 = (Inr u5, w5)"
    "except_image_not_found (images_get base) (download_base_image h base) w5 = (Inr u6, w6)"
    "which_s2i h w6 = (Inr found, w7)"
    "io_when (\<not> found) (io_raise ModuleNotFoundError) w7 = (Inr u8, w8)"
    "(if changed then io_return True
      else except_image_not_found
             (io_then (images_get (pip_layer_name n v))
                (io_return (if ad then True else fs0)))
             (io_return True)) w8 = (Inr fs, w9)"
    "io_when fs
       (io_then (emit (EnvDelete ''BUILD_PIP''))
          (create_prediction_image_s2i h b base (pip_layer_name n v)
             (orch_in (orchestrator b) [LOCAL_DOCKER_LAMBDA, AWS_LAMBDA])
             (orch_in (orchestrator b) [AWS_EKS, LOCAL_DOCKER_K8S]))) w9 = (Inr u10, w10)"
    "emit (EnvAddOrUpdate ''BUILD_PIP=false'' None) w10 = (Inr u11, w11)"
    "create_prediction_image_s2i h b (pip_layer_name n v) (full_image_name n v)
       (orch_in (orchestrator b) [LOCAL_DOCKER_LAMBDA, AWS_LAMBDA])
       (orch_in (orchestrator b) [AWS_EKS, LOCAL_DOCKER_K8S]) w11 = (Inr u12, w12)"
    "r = full_image_name n v"
    "chdir h (cwd w) w12 = (Inr (), w')"
proof -
  from run obtain wb where
    body: "build_image_s2i_body h b n v ec ee cd fs0 ad ui w = (Inr r, wb)"
    and restore: "chdir h (cwd w) wb = (Inr (), w')"
    unfolding build_image_s2i_def by (rule reset_workdir_InrE)
  from body show ?thesis
    unfolding build_image_s2i_body_def Let_def
    apply (elim io_then_InrE io_bind_InrE)
    apply (simp only: io_return_eq prod.inject sum.inject)
    apply (insert restore)
    apply (rule that; (assumption | simp))
    done
qed

lemma silent_chdir_any: "\<not> P (Chdir p) \<Longrightarrow> silent P (chdir h p)"
  by (simp add: silent_def chdir_def)

lemma silent_s2i_track_changes: "silent is_s2i_build (track_changes h b cr)"
  by (rule silent_track_changes) simp_all

lemma silent_pull_track_changes: "silent is_pull (track_changes h b cr)"
  by (rule silent_track_changes) simp_all

lemma build_image_s2i_summary:
  assumes run: "build_image_s2i h b n v ec ee cd fs0 ad ui w = (Inr r, w')"
  shows "\<exists>changed wc base fs.
     track_changes h b None (snd (chdir h (location b) w)) = (Inr changed, wc) \<and>
     get_base_name (current_env h) ee
        (orch_in (orchestrator b) [LOCAL_DOCKER_LAMBDA, AWS_LAMBDA])
        ec cd (orch_in (orchestrator b) [AWS_EKS, LOCAL_DOCKER_K8S]) 1 False = Inr base \<and>
     r = full_image_name n v \<and>
     build_tool_calls w' = build_tool_calls w @
        (if fs then [System (s2i_command h b base (pip_layer_name n v))] else []) @
        [System (s2i_command h b (pip_layer_name n v) (full_image_name n v))] \<and>
     (changed \<or> ad \<or> fs0 \<longrightarrow> fs) \<and>
     (\<not> changed \<and> \<not> ad \<and> \<not> fs0 \<and> pip_layer_name n v \<in> images w \<longrightarrow> \<not> fs) \<and>
     (ad \<longrightarrow> registry_pulls w' = registry_pulls w @
        [ImagePull (get_docker_registry h (region_name h) @ ''/'' @ base),
            System (''docker pull '' @ get_docker_registry h (region_name h) @ ''/'' @ base)])"
proof -
  let ?l = "orch_in (orchestrator b) [LOCAL_DOCKER_LAMBDA, AWS_LAMBDA]"
  let ?k = "orch_in (orchestrator b) [AWS_EKS, LOCAL_DOCKER_K8S]"
  let ?pip = "pip_layer_name n v"
  from run obtain u1 w1 changed w2 u3 w3 base w4 u5 w5 u6 w6 found w7 u8 w8 fs w9 u10 w10
      u11 w11 u12 w12 where
    s1: "chdir h (location b) w = (Inr u1, w1)"
    and s2: "track_changes h b None w1 = (Inr changed, w2)"
    and s3: "get_docker_client h w2 = (Inr u3, w3)"
    and s4: "io_lift (get_base_name (current_env h) ee ?l ec cd ?k 1 False) w3 = (Inr base, w4)"
    and s5: "io_when ad (download_base_image h base) w4 = (Inr u5, w5)"
    and s6: "except_image_not_found (images_get base) (download_base_image h base) w5
               = (Inr u6, w6)"
    and s7: "which_s2i h w6 = (Inr found, w7)"
    and s8: "io_when (\<not> found) (io_raise ModuleNotFoundError) w7 = (Inr u8, w8)"
    and s9: "(if changed then io_return True
      else except_image_not_found
             (io_then (images_get ?pip) (io_return (if ad then True else fs0)))
             (io_return True)) w8 = (Inr fs, w9)"
    and s10: "io_when fs
       (io_then (emit (EnvDelete ''BUILD_PIP''))
          (create_prediction_image_s2i h b base ?pip ?l ?k)) w9 = (Inr u10, w10)"
    and s11: "emit (EnvAddOrUpdate ''BUILD_PIP=false'' None) w10 = (Inr u11, w11)"
    and s12: "create_prediction_image_s2i h b ?pip (full_image_name n v) ?l ?k w11
                = (Inr u12, w12)"
    and r: "r = full_image_name n v"
    and s13: "chdir h (cwd w) w12 = (Inr (), w')"
    by (rule build_image_s2i_steps)
  have w1: "w1 = snd (chdir h (location b) w)" using s1 by simp
  have base: "get_base_name (current_env h) ee ?l ec cd ?k 1 False = Inr base" and w4: "w4 = w3"
    using s4 by simp_all
  \<comment> \<open>build-tool calls\<close>
  have c1: "build_tool_calls w1 = build_tool_calls w" "images w1 = images w"
    "registry_pulls w1 = registry_pulls w"
    using s1 by (auto simp: chdir_Inr build_tool_calls_def registry_pulls_def)
  have c2: "build_tool_calls w2 = build_tool_calls w1" "images w2 = images w1"
    "registry_pulls w2 = registry_pulls w1"
    using silent_calls [OF silent_s2i_track_changes s2] track_changes_frame(2) [OF s2]
      silent_pulls [OF silent_pull_track_changes s2] by simp_all
  have c3: "build_tool_calls w4 = build_tool_calls w2" "images w4 = images w2"
    "registry_pulls w4 = registry_pulls w2"
    using s3 w4 by (auto simp: get_docker_client_Inr build_tool_calls_def registry_pulls_def)
  have c5: "build_tool_calls w5 = build_tool_calls w4" "images w4 \<subseteq> images w5"
    using silent_calls [OF silent_when [OF silent_s2i_download] s5]
      keeps_images_sub [OF keeps_images_when [OF keeps_images_download] s5] by simp_all
  have c6: "build_tool_calls w6 = build_tool_calls w5" "images w5 \<subseteq> images w6"
    using silent_calls [OF silent_except [OF silent_images_get silent_s2i_download] s6]
      keeps_images_sub [OF keeps_images_except [OF keeps_images_images_get keeps_images_download] s6]
    by simp_all
  have c8: "build_tool_calls w8 = build_tool_calls w6" "images w8 = images w6"
    "registry_pulls w8 = registry_pulls w6"
    using s7 s8
    by (auto simp: which_s2i_eq io_when_Inr build_tool_calls_def registry_pulls_def
          split: if_splits)
  note g = gate [OF s9]
  have c10: "build_tool_calls w10 = build_tool_calls w9 @
               (if fs then [System (s2i_command h b base ?pip)] else [])"
    "registry_pulls w10 = registry_pulls w9"
  proof -
    show "build_tool_calls w10 = build_tool_calls w9 @
               (if fs then [System (s2i_command h b base ?pip)] else [])"
    proof (cases fs)
      case True
      with s10 obtain x wx where
        a: "emit (EnvDelete ''BUILD_PIP'') w9 = (Inr x, wx)"
        and b: "create_prediction_image_s2i h b base ?pip ?l ?k wx = (Inr u10, w10)"
        by (auto simp: io_when_Inr io_then_Inr)
      from a have "build_tool_calls wx = build_tool_calls w9"
        by (auto simp: emit_eq build_tool_calls_def)
      with create_prediction_image_s2i_Inr(1) [OF b] True show ?thesis by simp
    next
      case False
      with s10 show ?thesis by (simp add: io_when_Inr)
    qed
    show "registry_pulls w10 = registry_pulls w9"
    proof (cases fs)
      case True
      with s10 obtain x wx where
        a: "emit (EnvDelete ''BUILD_PIP'') w9 = (Inr x, wx)"
        and b: "create_prediction_image_s2i h b base ?pip ?l ?k wx = (Inr u10, w10)"
        by (auto simp: io_when_Inr io_then_Inr)
      from a have "registry_pulls wx = registry_pulls w9"
        by (auto simp: emit_eq registry_pulls_def)
      with create_prediction_image_s2i_Inr(3) [OF b] show ?thesis by simp
    next
      case False
      with s10 show ?thesis by (simp add: io_when_Inr)
    qed
  qed
  have c11: "build_tool_calls w11 = build_tool_calls w10" "registry_pulls w11 = registry_pulls w10"
    using s11 by (auto simp: emit_eq build_tool_calls_def registry_pulls_def)
  note c12 = create_prediction_image_s2i_Inr [OF s12]
  have c13: "build_tool_calls w' = build_tool_calls w12" "registry_pulls w' = registry_pulls w12"
    using s13 by (auto simp: chdir_Inr build_tool_calls_def registry_pulls_def)
  have calls: "build_tool_calls w' = build_tool_calls w @
        (if fs then [System (s2i_command h b base ?pip)] else []) @
        [System (s2i_command h b ?pip (full_image_name n v))]"
    by (simp only: c13 c12 c11 c10 g c8 c6 c5 c3 c2 c1 append_assoc)
  have sub: "images w \<subseteq> images w8"
    using c1(2) c2(2) c3(2) c5(2) c6(2) c8(2) by simp
  have up: "changed \<or> ad \<or> fs0 \<longrightarrow> fs"
    using g(4) by auto
  have down: "\<not> changed \<and> \<not> ad \<and> \<not> fs0 \<and> ?pip \<in> images w \<longrightarrow> \<not> fs"
    using g(5) sub by auto
  have pulls: "registry_pulls w' = registry_pulls w @
        [ImagePull (get_docker_registry h (region_name h) @ ''/'' @ base),
            System (''docker pull '' @ get_docker_registry h (region_name h) @ ''/'' @ base)]" if ad
  proof -
    from s5 that have d: "download_base_image h base w4 = (Inr u5, w5)"
      by (simp add: io_when_Inr)
    note dl = download_base_image_Inr [OF d]
    from except_found [OF dl(1), of "download_base_image h base"] s6
    have "w6 = w5\<lparr>trace := trace w5 @ [ImageGet base]\<rparr>" by simp
    then have "registry_pulls w6 = registry_pulls w5"
      by (simp add: registry_pulls_def)
    then show ?thesis
      by (simp only: c13 c12 c11 c10 g c8 dl(2) c3 c2 c1)
  qed
  from s2 w1 base r calls up down pulls show ?thesis by blast
qed

lemma silent_get_docker_client: "\<not> P DockerClient \<Longrightarrow> silent P (get_docker_client h)"
  by (simp add: get_docker_client_def silent_emit)

lemma silent_reset_workdir:
  "(\<And>p. \<not> P (Chdir p)) \<Longrightarrow> silent P f \<Longrightarrow> silent P (reset_workdir h f)"
  unfolding reset_workdir_def
  by (intro silent_bind silent_getcwd silent_finally silent_chdir) simp_all

lemma io_bind_lift_Inl: "io_bind (io_lift (Inl e)) f = io_raise e"
  by (rule ext) (simp add: io_bind_def io_lift_def io_raise_def)

lemma eia_lambda_body:
  assumes "orch_in (orchestrator b) [LOCAL_DOCKER_LAMBDA, AWS_LAMBDA]"
  shows "build_image_s2i_body h b n v ec True cd fs0 ad ui =
     io_then (chdir h (location b)) (
     io_bind (track_changes h b None) (\<lambda>changes_in_build.
     io_then (get_docker_client h)
       (io_raise (ValueError ''Cannot use EIA with other options''))))"
  using assms
  by (simp add: build_image_s2i_body_def get_base_name_def io_bind_lift_Inl)

text \<open>
  C4, amended. With \<^verbatim>\<open>enable_eia\<close> and an orchestrator in Lambda mode the build never
  returns; it records no image lookup, no registry operation, no search for the build
  tool and no subprocess; and when the change of directory, change detection and the
  connection to Docker succeed, the error is the invalid-combination error of the
  resolver. Change detection has run by then.
\<close>

theorem eia_lambda_fails:
  assumes lam: "orch_in (orchestrator b) [LOCAL_DOCKER_LAMBDA, AWS_LAMBDA]"
  shows "(\<exists>e. fst (build_image_s2i h b n v ec True cd fs0 ad ui w) = Inl e) \<and>
         filter is_image_or_build (trace (snd (build_image_s2i h b n v ec True cd fs0 ad ui w)))
           = filter is_image_or_build (trace w) \<and>
         (is_dir h (cwd w) \<and> is_dir h (location b) \<and> docker_client_ok h \<and>
          (\<exists>c wc. track_changes h b None (snd (chdir h (location b) w)) = (Inr c, wc))
          \<longrightarrow> fst (build_image_s2i h b n v ec True cd fs0 ad ui w)
                = Inl (ValueError ''Cannot use EIA with other options''))"
proof (intro conjI impI)
  note body = eia_lambda_body [OF lam]
  show "\<exists>e. fst (build_image_s2i h b n v ec True cd fs0 ad ui w) = Inl e"
    unfolding build_image_s2i_def body
    by (auto simp: reset_workdir_def io_then_def io_bind_def io_finally_def io_raise_def
          getcwd_def split: prod.splits sum.splits)
  have "silent is_image_or_build (build_image_s2i h b n v ec True cd fs0 ad ui)"
    unfolding build_image_s2i_def body
    by (intro silent_reset_workdir silent_then silent_bind silent_chdir silent_track_changes
          silent_get_docker_client silent_raise) simp_all
  then show "filter is_image_or_build
               (trace (snd (build_image_s2i h b n v ec True cd fs0 ad ui w)))
             = filter is_image_or_build (trace w)"
    by (rule silentD)
  assume "is_dir h (cwd w) \<and> is_dir h (location b) \<and> docker_client_ok h \<and>
          (\<exists>c wc. track_changes h b None (snd (chdir h (location b) w)) = (Inr c, wc))"
  then obtain c wc where d: "is_dir h (cwd w)" "is_dir h (location b)" "docker_client_ok h"
    and t: "track_changes h b None (snd (chdir h (location b) w)) = (Inr c, wc)"
    by blast
  show "fst (build_image_s2i h b n v ec True cd fs0 ad ui w)
          = Inl (ValueError ''Cannot use EIA with other options'')"
    unfolding build_image_s2i_def body
    using d t
    by (simp add: reset_workdir_def io_then_def io_bind_def io_finally_def io_raise_def
          getcwd_def chdir_def get_docker_client_def emit_def)
qed

text \<open>
  C4, as stated, fails: the resolver is called after change detection, so the run that
  ends in the invalid-combination error has created, read and written both cache files.
\<close>

theorem eia_lambda_cache_counterexample:
  "fst (build_image_s2i demo_host (demo_builder\<lparr>orchestrator := AWS_LAMBDA\<rparr>) ''m'' ''1''
          False True False False False False demo_world)
     = Inl (ValueError ''Cannot use EIA with other options'') \<and>
   files demo_world ''/s/cache/m/1/.hash.json'' = None \<and>
   files (snd (build_image_s2i demo_host (demo_builder\<lparr>orchestrator := AWS_LAMBDA\<rparr>) ''m'' ''1''
          False True False False False False demo_world)) ''/s/cache/m/1/.hash.json''
     = Some (Json [(''requirements.txt'', PStr ''numpy'')]) \<and>
   trace (snd (build_image_s2i demo_host (demo_builder\<lparr>orchestrator := AWS_LAMBDA\<rparr>) ''m'' ''1''
          False True False False False False demo_world))
     = [Chdir ''/m'', Makedirs ''/s/cache/m/1'',
        PathExists ''/s/cache/m/1/.hash.json'', FileWrite ''/s/cache/m/1/.hash.json'',
        FileRead ''/s/cache/m/1/.hash.json'', FileRead ''/m/requirements.txt'',
        FileWrite ''/s/cache/m/1/.hash.json'',
        PathExists ''/s/cache/m/1/.orchestrator.txt'', FileWrite ''/s/cache/m/1/.orchestrator.txt'',
        FileRead ''/s/cache/m/1/.orchestrator.txt'', FileWrite ''/s/cache/m/1/.orchestrator.txt'',
        DockerClient, Chdir ''/m'']"
  by code_simp

text \<open>
  The amended C4 on the concrete installation.
\<close>

theorem eia_lambda_fails_witness:
  "fst (build_image_s2i demo_host (demo_builder\<lparr>orchestrator := AWS_LAMBDA\<rparr>) ''m'' ''1''
          False True False False False False demo_world)
     = Inl (ValueError ''Cannot use EIA with other options'')"
proof -
  let ?b = "demo_builder\<lparr>orchestrator := AWS_LAMBDA\<rparr>"
  have lam: "orch_in (orchestrator ?b) [LOCAL_DOCKER_LAMBDA, AWS_LAMBDA]"
    by (simp add: orch_in_cases)
  have d: "is_dir demo_host (cwd demo_world)" "is_dir demo_host (location ?b)"
    "docker_client_ok demo_host"
    by (simp_all add: demo_host_def)
  have "fst (track_changes demo_host ?b None (snd (chdir demo_host (location ?b) demo_world)))
          = Inr True"
    by code_simp
  then have t: "\<exists>c wc. track_changes demo_host ?b None
                  (snd (chdir demo_host (location ?b) demo_world)) = (Inr c, wc)"
    by (metis prod.collapse)
  from eia_lambda_fails [OF lam, where h = demo_host and w = demo_world and n = "''m''"
        and v = "''1''" and ec = False and cd = False and ?fs0.0 = False and ad = False
        and ui = False]
    d t
  show ?thesis by blast
qed







section \<open>Building with \<^verbatim>\<open>skip_build\<close>\<close>

lemma only_prepared_refl [simp]: "only_prepared b w w"
  by (simp add: only_prepared_def)

lemma only_prepared_trans:
  "only_prepared b w w1 \<Longrightarrow> only_prepared b w1 w2 \<Longrightarrow> only_prepared b w w2"
  by (simp add: only_prepared_def)

lemma only_prepared_write:
  "p = handler_file b \<or> p = entrypoint_file b \<or> p = config_file b \<Longrightarrow>
   only_prepared b w (w\<lparr>files := (files w)(p \<mapsto> c), trace := trace w @ [FileWrite p]\<rparr>)"
  by (auto simp: only_prepared_def)

lemma update_environs_eq:
  "update_environs envs w = (r, w') \<Longrightarrow> r = Inr () \<and> only_prepared b w w' \<and> files w' = files w"
proof (induction envs arbitrary: w)
  case Nil
  then show ?case by simp
next
  case (Cons kv envs)
  obtain k v where kv: "kv = (k, v)" by (cases kv)
  let ?w1 = "w\<lparr>trace := trace w @ [EnvAddOrUpdate k (Some v)]\<rparr>"
  from Cons.prems kv have "update_environs envs ?w1 = (r, w')"
    by (simp add: io_then_def io_bind_def emit_def)
  from Cons.IH [OF this] have "r = Inr ()" "only_prepared b ?w1 w'" "files w' = files w"
    by simp_all
  moreover have "only_prepared b w ?w1"
    by (simp add: only_prepared_def)
  ultimately show ?case
    using only_prepared_trans by blast
qed

lemma prepare_k8s_parameters_Inr:
  assumes "prepare_k8s_parameters b kw w = (Inr m, w')"
  shows "w' = w\<lparr>files := (files w)(config_file b \<mapsto> Json m),
                 trace := trace w @ [FileWrite (config_file b)]\<rparr>"
  using assms unfolding prepare_k8s_parameters_def config_file_def Let_def
  by (auto simp: io_then_Inr write_file_eq split: pyval.splits)

lemma handler_neq_entrypoint: "handler_file b \<noteq> entrypoint_file b"
  by (simp add: handler_file_def entrypoint_file_def path_join_def)


lemma prepare_entrypoint_Inr:
  assumes "prepare_entrypoint h b cache workers w = (Inr u, w')"
  shows "only_prepared b w w'"
    and "orch_in (orchestrator b) [LOCAL_DOCKER, AWS_SAGEMAKER, AWS_SAGEMAKER_ASYNC] \<Longrightarrow>
         files w' (handler_file b) = Some (Text (create_model_handler h (entrypoint_class b) False None)) \<and>
         files w' (entrypoint_file b) = Some (Text (create_model_entrypoint h workers))"
    and "orch_in (orchestrator b) [LOCAL_DOCKER_LAMBDA, AWS_LAMBDA] \<Longrightarrow>
         files w' (handler_file b) =
           Some (Text (create_model_handler h (entrypoint_class b) True (Some cache)))"
proof -
  consider (serve) "orch_in (orchestrator b) [LOCAL_DOCKER, AWS_SAGEMAKER, AWS_SAGEMAKER_ASYNC]"
    | (lam) "\<not> orch_in (orchestrator b) [LOCAL_DOCKER, AWS_SAGEMAKER, AWS_SAGEMAKER_ASYNC]"
        "orch_in (orchestrator b) [LOCAL_DOCKER_LAMBDA, AWS_LAMBDA]"
    | (k8s) "\<not> orch_in (orchestrator b) [LOCAL_DOCKER, AWS_SAGEMAKER, AWS_SAGEMAKER_ASYNC]"
        "\<not> orch_in (orchestrator b) [LOCAL_DOCKER_LAMBDA, AWS_LAMBDA]"
        "orch_in (orchestrator b) [AWS_EKS, LOCAL_DOCKER_K8S]"
    | (other) "\<not> orch_in (orchestrator b) [LOCAL_DOCKER, AWS_SAGEMAKER, AWS_SAGEMAKER_ASYNC]"
        "\<not> orch_in (orchestrator b) [LOCAL_DOCKER_LAMBDA, AWS_LAMBDA]"
        "\<not> orch_in (orchestrator b) [AWS_EKS, LOCAL_DOCKER_K8S]"
    by blast
  then have "only_prepared b w w' \<and>
     (orch_in (orchestrator b) [LOCAL_DOCKER, AWS_SAGEMAKER, AWS_SAGEMAKER_ASYNC] \<longrightarrow>
         files w' (handler_file b) = Some (Text (create_model_handler h (entrypoint_class b) False None)) \<and>
         files w' (entrypoint_file b) = Some (Text (create_model_entrypoint h workers))) \<and>
     (orch_in (orchestrator b) [LOCAL_DOCKER_LAMBDA, AWS_LAMBDA] \<longrightarrow>
         files w' (handler_file b) =
           Some (Text (create_model_handler h (entrypoint_class b) True (Some cache))))"
  proof cases
    case serve
    then have nl: "\<not> orch_in (orchestrator b) [LOCAL_DOCKER_LAMBDA, AWS_LAMBDA]"
      by (auto simp: orch_in_cases)
    from assms serve obtain w1 where
      a: "w1 = w\<lparr>files := (files w)(handler_file b \<mapsto>
                 Text (create_model_handler h (entrypoint_class b) False None)),
               trace := trace w @ [FileWrite (handler_file b)]\<rparr>"
      and b: "w' = w1\<lparr>files := (files w1)(entrypoint_file b \<mapsto>
                 Text (create_model_entrypoint h workers)),
               trace := trace w1 @ [FileWrite (entrypoint_file b)]\<rparr>"
      by (auto simp: prepare_entrypoint_def io_then_Inr write_file_eq handler_file_def
            entrypoint_file_def)
    have "only_prepared b w w1" unfolding a by (rule only_prepared_write) simp
    moreover have "only_prepared b w1 w'" unfolding b by (rule only_prepared_write) simp
    ultimately have "only_prepared b w w'" by (rule only_prepared_trans)
    with a b nl serve handler_neq_entrypoint [of b] show ?thesis by simp
  next
    case lam
    with assms have
      a: "w' = w\<lparr>files := (files w)(handler_file b \<mapsto>
                 Text (create_model_handler h (entrypoint_class b) True (Some cache))),
               trace := trace w @ [FileWrite (handler_file b)]\<rparr>"
      by (auto simp: prepare_entrypoint_def write_file_eq handler_file_def)
    have "only_prepared b w w'" unfolding a by (rule only_prepared_write) simp
    with a lam show ?thesis by simp
  next
    case k8s
    with assms have "w' = w" by (simp add: prepare_entrypoint_def)
    with k8s show ?thesis by simp
  next
    case other
    with assms show ?thesis by (simp add: prepare_entrypoint_def)
  qed
  then show "only_prepared b w w'"
    and "orch_in (orchestrator b) [LOCAL_DOCKER, AWS_SAGEMAKER, AWS_SAGEMAKER_ASYNC] \<Longrightarrow>
         files w' (handler_file b) = Some (Text (create_model_handler h (entrypoint_class b) False None)) \<and>
         files w' (entrypoint_file b) = Some (Text (create_model_entrypoint h workers))"
    and "orch_in (orchestrator b) [LOCAL_DOCKER_LAMBDA, AWS_LAMBDA] \<Longrightarrow>
         files w' (handler_file b) =
           Some (Text (create_model_handler h (entrypoint_class b) True (Some cache)))"
    by blast+
qed

lemma only_prepared_k8s:
  assumes "prepare_k8s_parameters b kw w = (Inr m, w')"
  shows "only_prepared b w w'"
  unfolding prepare_k8s_parameters_Inr [OF assms] by (rule only_prepared_write) simp

lemma get_deployment_properties_Inr:
  assumes "get_deployment_properties b properties kw w = (Inr P, w')"
  shows "only_prepared b w w'"
    and "\<not> orch_in (orchestrator b) [AWS_EKS, LOCAL_DOCKER_K8S] \<Longrightarrow> w' = w"
    and "orch_in (orchestrator b) [AWS_EKS, LOCAL_DOCKER_K8S] \<Longrightarrow>
         \<exists>m. files w' (config_file b) = Some (Json m) \<and>
             map_of P ''kubernetes_config'' = Some (PDict m)"
proof -
  show nk: "w' = w" if "\<not> orch_in (orchestrator b) [AWS_EKS, LOCAL_DOCKER_K8S]"
    using assms that by (auto simp: get_deployment_properties_def Let_def)
  show k: "\<exists>m. files w' (config_file b) = Some (Json m) \<and>
             map_of P ''kubernetes_config'' = Some (PDict m)"
    if "orch_in (orchestrator b) [AWS_EKS, LOCAL_DOCKER_K8S]"
    using assms that
    by (auto simp: get_deployment_properties_def Let_def io_bind_Inr update_conv'
          dest!: prepare_k8s_parameters_Inr)
  show "only_prepared b w w'"
  proof (cases "orch_in (orchestrator b) [AWS_EKS, LOCAL_DOCKER_K8S]")
    case True
    with assms show ?thesis
      by (auto simp: get_deployment_properties_def Let_def io_bind_Inr dest: only_prepared_k8s)
  next
    case False
    with nk show ?thesis by simp
  qed
qed


lemma prepare_Inr:
  assumes "prepare h b kwargs w = (Inr u, w')"
  shows "only_prepared b w w'"
    and "builder_class b = AiImageBuilder \<Longrightarrow>
         orch_in (orchestrator b) [LOCAL_DOCKER, AWS_SAGEMAKER, AWS_SAGEMAKER_ASYNC] \<Longrightarrow>
         files w' (handler_file b) = Some (Text (create_model_handler h (entrypoint_class b) False None)) \<and>
         files w' (entrypoint_file b) =
           Some (Text (create_model_entrypoint h
                         (dict_get_default kwargs ''sagemaker_worker_count'' (PInt 1))))"
    and "builder_class b = AiImageBuilder \<Longrightarrow>
         orch_in (orchestrator b) [LOCAL_DOCKER_LAMBDA, AWS_LAMBDA] \<Longrightarrow>
         files w' (handler_file b) =
           Some (Text (create_model_handler h (entrypoint_class b) True
                         (Some (dict_get_default kwargs ''lambda_ai_cache'' (PInt 32)))))"
proof -
  show "only_prepared b w w'"
  proof (cases "builder_class b")
    case AiImageBuilder
    with assms show ?thesis
      by (auto simp: prepare_def dest: prepare_entrypoint_Inr(1))
  next
    case AiTrainerImageBuilder
    with assms show ?thesis
      by (auto simp: prepare_def io_then_Inr split: if_splits dest: only_prepared_k8s)
  qed
  show "files w' (handler_file b) = Some (Text (create_model_handler h (entrypoint_class b) False None)) \<and>
         files w' (entrypoint_file b) =
           Some (Text (create_model_entrypoint h
                         (dict_get_default kwargs ''sagemaker_worker_count'' (PInt 1))))"
    if "builder_class b = AiImageBuilder"
      "orch_in (orchestrator b) [LOCAL_DOCKER, AWS_SAGEMAKER, AWS_SAGEMAKER_ASYNC]"
    using assms that by (auto simp: prepare_def dest: prepare_entrypoint_Inr(2))
  show "files w' (handler_file b) =
           Some (Text (create_model_handler h (entrypoint_class b) True
                         (Some (dict_get_default kwargs ''lambda_ai_cache'' (PInt 32)))))"
    if "builder_class b = AiImageBuilder"
      "orch_in (orchestrator b) [LOCAL_DOCKER_LAMBDA, AWS_LAMBDA]"
    using assms that by (auto simp: prepare_def dest: prepare_entrypoint_Inr(3))
qed

text \<open>
  C9, amended. A call of \<^verbatim>\<open>build_image\<close> with \<^verbatim>\<open>skip_build\<close> that returns normally
  returns \<^verbatim>\<open><name>:<version>\<close> and has done nothing but preparation: the working
  directory and the local images are as before, no file other than \<^verbatim>\<open>handler.py\<close>,
  \<^verbatim>\<open>dockerd-entrypoint.py\<close> and \<^verbatim>\<open><name>_config.json\<close> in the build location has
  changed, and the only events recorded are updates of the environment file and
  writes of those files (so there was no change detection, no reading or writing of
  the cache files, no image lookup or pull, no build-tool invocation). The prediction
  builder has written the handler and the server entrypoint for the container-serving
  orchestrators and the Lambda-mode handler for the Lambda orchestrators; for the
  Kubernetes orchestrators the manifest returned under \<^verbatim>\<open>kubernetes_config\<close> is the one
  written to \<^verbatim>\<open><name>_config.json\<close>.
\<close>

theorem skip_build:
  assumes run: "build_image h b cuda_devel enable_cuda enable_eia True build_all_layers
                  download_base properties use_internal kwargs w = (Inr (img, P), w')"
  shows "img = full_image_name (name b) (version b) \<and>
     cwd w' = cwd w \<and> images w' = images w \<and>
     (\<forall>p. p \<noteq> handler_file b \<and> p \<noteq> entrypoint_file b \<and> p \<noteq> config_file b
          \<longrightarrow> files w' p = files w p) \<and>
     filter (\<lambda>e. \<not> is_preparation b e) (trace w') = filter (\<lambda>e. \<not> is_preparation b e) (trace w) \<and>
     (builder_class b = AiImageBuilder \<and>
      orch_in (orchestrator b) [LOCAL_DOCKER, AWS_SAGEMAKER, AWS_SAGEMAKER_ASYNC] \<longrightarrow>
        files w' (handler_file b) =
          Some (Text (create_model_handler h (entrypoint_class b) False None)) \<and>
        files w' (entrypoint_file b) =
          Some (Text (create_model_entrypoint h
                        (dict_get_default kwargs ''sagemaker_worker_count'' (PInt 1))))) \<and>
     (builder_class b = AiImageBuilder \<and>
      orch_in (orchestrator b) [LOCAL_DOCKER_LAMBDA, AWS_LAMBDA] \<longrightarrow>
        files w' (handler_file b) =
          Some (Text (create_model_handler h (entrypoint_class b) True
                        (Some (dict_get_default kwargs ''lambda_ai_cache'' (PInt 32)))))) \<and>
     (orch_in (orchestrator b) [AWS_EKS, LOCAL_DOCKER_K8S] \<longrightarrow>
        (\<exists>m. files w' (config_file b) = Some (Json m) \<and>
             map_of P ''kubernetes_config'' = Some (PDict m)))"
proof -
  from run obtain u0 w1 u1 w2 P' where
    s0: "(case dict_get_default kwargs ''envs'' (PDict []) of
            PDict envs \<Rightarrow> update_environs envs
          | _ \<Rightarrow> io_raise AttributeError) w = (Inr u0, w1)"
    and s1: "prepare h b kwargs w1 = (Inr u1, w2)"
    and im: "img = full_image_name (name b) (version b)"
    and s3: "get_deployment_properties b properties
               ((''image_name'', PStr (full_image_name (name b) (version b))) #
                (''cuda_devel'', PBool cuda_devel) # (''enable_cuda'', PBool enable_cuda) #
                (''enable_eia'', PBool enable_eia) # kwargs) w2 = (Inr P, w')"
    unfolding build_image_def
    by (auto simp: io_then_Inr io_bind_Inr split: if_splits)
  from s0 obtain envs where "update_environs envs w = (Inr u0, w1)"
    by (auto split: pyval.splits)
  from update_environs_eq [OF this, of b]
  have e0: "only_prepared b w w1" and f0: "files w1 = files w" by simp_all
  note p = prepare_Inr [OF s1]
  note g = get_deployment_properties_Inr [OF s3]
  have all: "only_prepared b w w'"
    using e0 p(1) g(1) only_prepared_trans by blast
  have serve: "files w' (handler_file b) =
          Some (Text (create_model_handler h (entrypoint_class b) False None)) \<and>
        files w' (entrypoint_file b) =
          Some (Text (create_model_entrypoint h
                        (dict_get_default kwargs ''sagemaker_worker_count'' (PInt 1))))"
    if "builder_class b = AiImageBuilder"
      and o: "orch_in (orchestrator b) [LOCAL_DOCKER, AWS_SAGEMAKER, AWS_SAGEMAKER_ASYNC]"
  proof -
    from o have "\<not> orch_in (orchestrator b) [AWS_EKS, LOCAL_DOCKER_K8S]"
      by (auto simp: orch_in_cases)
    with g(2) have "w' = w2" by simp
    with p(2) that show ?thesis by simp
  qed
  have lam: "files w' (handler_file b) =
          Some (Text (create_model_handler h (entrypoint_class b) True
                        (Some (dict_get_default kwargs ''lambda_ai_cache'' (PInt 32)))))"
    if "builder_class b = AiImageBuilder"
      and o: "orch_in (orchestrator b) [LOCAL_DOCKER_LAMBDA, AWS_LAMBDA]"
  proof -
    from o have "\<not> orch_in (orchestrator b) [AWS_EKS, LOCAL_DOCKER_K8S]"
      by (auto simp: orch_in_cases)
    with g(2) have "w' = w2" by simp
    with p(3) that show ?thesis by simp
  qed
  from all have fr: "cwd w' = cwd w" "images w' = images w"
    "\<forall>p. p \<noteq> handler_file b \<and> p \<noteq> entrypoint_file b \<and> p \<noteq> config_file b
          \<longrightarrow> files w' p = files w p"
    "filter (\<lambda>e. \<not> is_preparation b e) (trace w') = filter (\<lambda>e. \<not> is_preparation b e) (trace w)"
    by (simp_all add: only_prepared_def)
  show ?thesis
    using im fr serve lam g(3) by blast
qed

text \<open>
  C9, as stated, fails for \<^verbatim>\<open>MINIKUBE\<close>, which the prediction builder accepts but
  \<^verbatim>\<open>prepare_entrypoint\<close> does not implement: the call raises and returns no image name.
\<close>

theorem skip_build_counterexample:
  "fst (build_image demo_host (demo_builder\<lparr>orchestrator := MINIKUBE\<rparr>)
          False False False True False False None False [] demo_world)
     = Inl NotImplementedError"
  by code_simp

text \<open>
  The amended C9 on the concrete installation.
\<close>

theorem skip_build_witness:
  "build_image demo_host demo_builder False False False True False False None False []
     demo_world
   = (Inr (''m:1'', [(''image_name'', PStr ''m:1''), (''lambda_mode'', PBool False),
                     (''enable_cuda'', PBool False), (''k8s_mode'', PNone)]),
      snd (build_image demo_host demo_builder False False False True False False None False []
             demo_world)) \<and>
   files (snd (build_image demo_host demo_builder False False False True False False None
                 False [] demo_world)) ''/m/handler.py'' = Some (Text ''M'') \<and>
   files (snd (build_image demo_host demo_builder False False False True False False None
                 False [] demo_world)) ''/m/dockerd-entrypoint.py'' = Some (Text ''serve'') \<and>
   trace (snd (build_image demo_host demo_builder False False False True False False None
                 False [] demo_world))
     = [FileWrite ''/m/handler.py'', FileWrite ''/m/dockerd-entrypoint.py'']"
proof -
  let ?run = "build_image demo_host demo_builder False False False True False False None
                False [] demo_world"
  have e: "fst ?run = Inr (''m:1'', [(''image_name'', PStr ''m:1''), (''lambda_mode'', PBool False),
                     (''enable_cuda'', PBool False), (''k8s_mode'', PNone)])"
    by code_simp
  then have r: "?run = (Inr (''m:1'', [(''image_name'', PStr ''m:1''), (''lambda_mode'', PBool False),
                     (''enable_cuda'', PBool False), (''k8s_mode'', PNone)]), snd ?run)"
    by (simp add: prod_eq_iff)
  have o: "builder_class demo_builder = AiImageBuilder \<and>
      orch_in (orchestrator demo_builder) [LOCAL_DOCKER, AWS_SAGEMAKER, AWS_SAGEMAKER_ASYNC]"
    by (simp add: demo_builder_def orch_in_cases)
  have n: "handler_file demo_builder = ''/m/handler.py''"
    "entrypoint_file demo_builder = ''/m/dockerd-entrypoint.py''"
    by code_simp+
  have c: "create_model_handler demo_host (entrypoint_class demo_builder) False None = ''M''"
    "create_model_entrypoint demo_host (dict_get_default [] ''sagemaker_worker_count'' (PInt 1))
       = ''serve''"
    by (simp_all add: demo_host_def demo_builder_def)
  from skip_build [OF r] o
  have "files (snd ?run) (handler_file demo_builder) =
          Some (Text (create_model_handler demo_host (entrypoint_class demo_builder) False None)) \<and>
        files (snd ?run) (entrypoint_file demo_builder) =
          Some (Text (create_model_entrypoint demo_host
                        (dict_get_default [] ''sagemaker_worker_count'' (PInt 1))))"
    by blast
  then have f: "files (snd ?run) ''/m/handler.py'' = Some (Text ''M'')"
    "files (snd ?run) ''/m/dockerd-entrypoint.py'' = Some (Text ''serve'')"
    by (simp_all add: n c)
  have t: "trace (snd ?run) = [FileWrite ''/m/handler.py'', FileWrite ''/m/dockerd-entrypoint.py'']"
    by code_simp
  from r f t show ?thesis by blast
qed

section \<open>Base image resolver: the example\<close>

text \<open>
  C7. With CUDA requested and every other flag off, in an environment that is not
  the development environment, the resolver returns (for the default schema version 1)
  exactly \<^verbatim>\<open>superai-model-s2i-python3711-gpu:1\<close>.
\<close>

theorem get_base_name_gpu:
  "env \<noteq> ''dev'' \<Longrightarrow>
   get_base_name env False False True False False 1 False
     = Inr ''superai-model-s2i-python3711-gpu:1''"
  by (simp add: get_base_name_def show_int_def show_nat.simps digit_char_def)

theorem get_base_name_gpu_witness:
  "''prod'' \<noteq> ''dev'' \<and>
   get_base_name ''prod'' False False True False False 1 False
     = Inr ''superai-model-s2i-python3711-gpu:1''"
  using get_base_name_gpu [of "''prod''"] by simp

end
